theory Spec2Isabelle
  imports Main "HOL-Library.Multiset"
begin

section \<open>Data model (app/database/models.py)\<close>

text \<open>
  \<^verbatim>\<open>class EnglishLevel(str, Enum)\<close> with its three members; \<open>level_value\<close> is the
  member's \<^verbatim>\<open>.value\<close>.
\<close>

datatype EnglishLevel = BASIC | INTERMEDIATE | ADVANCED

fun level_value :: "EnglishLevel \<Rightarrow> string" where
  "level_value BASIC = ''basic''"
| "level_value INTERMEDIATE = ''intermediate''"
| "level_value ADVANCED = ''advanced''"

text \<open>
  \<^verbatim>\<open>class VocabularyItem(BaseModel)\<close>. The field \<^verbatim>\<open>id\<close> is \<open>item_id\<close> here
  (\<open>id\<close> is the identity function of HOL). Two items are equal (\<^verbatim>\<open>==\<close>, \<^verbatim>\<open>!=\<close> of
  a pydantic model) when all their fields are, which is equality of records.
\<close>

record VocabularyItem =
  item_id :: string
  category :: string
  english_word :: string
  spanish_translation :: string
  example_sentence :: string
  complexity :: EnglishLevel
  pronunciation :: "string option"

text \<open>The exceptions of the Python runtime that the modelled code can raise.\<close>

datatype py_error = IndexError | ValueError | JSONDecodeError | TypeError | AttributeError
  | ValidationError

section \<open>Strings\<close>

text \<open>
  \<^verbatim>\<open>str.lower()\<close> on ASCII text: the letters A to Z go to a to z, every other
  character stays (terms outside ASCII are not modelled).
\<close>

definition upper_letters :: string where
  "upper_letters = ''ABCDEFGHIJKLMNOPQRSTUVWXYZ''"

definition lower_letters :: string where
  "lower_letters = ''abcdefghijklmnopqrstuvwxyz''"

definition lower_char :: "char \<Rightarrow> char" where
  "lower_char c = (case map_of (zip upper_letters lower_letters) c of Some d \<Rightarrow> d | None \<Rightarrow> c)"

definition lower :: "string \<Rightarrow> string" where
  "lower s = map lower_char s"

text \<open>\<^verbatim>\<open>s.startswith(k)\<close>, and \<^verbatim>\<open>k in s\<close> for strings (\<open>contains s k\<close>).\<close>

fun startswith :: "string \<Rightarrow> string \<Rightarrow> bool" where
  "startswith s [] = True"
| "startswith [] (k # ks) = False"
| "startswith (c # cs) (k # ks) = (c = k \<and> startswith cs ks)"

fun contains :: "string \<Rightarrow> string \<Rightarrow> bool" where
  "contains [] k = (k = [])"
| "contains (c # cs) k = (startswith (c # cs) k \<or> contains cs k)"

text \<open>
  \<^verbatim>\<open>s.replace(old, new)\<close>: every occurrence of \<open>old\<close>, left to right and without
  overlap; an empty \<open>old\<close> matches before every character and at the end.
\<close>

fun replace_from :: "string \<Rightarrow> string \<Rightarrow> string \<Rightarrow> string" where
  "replace_from [] old new = []"
| "replace_from (c # cs) [] new = c # cs"
| "replace_from (c # cs) (k # ks) new =
     (if startswith (c # cs) (k # ks)
      then new @ replace_from (drop (length ks) cs) (k # ks) new
      else c # replace_from cs (k # ks) new)"

definition py_replace :: "string \<Rightarrow> string \<Rightarrow> string \<Rightarrow> string" where
  "py_replace s old new =
     (if old = [] then new @ concat (map (\<lambda>c. c # new) s) else replace_from s old new)"

section \<open>Word classifiers (app/services/vocab_service.py)\<close>

subsection \<open>\<^verbatim>\<open>_extract_theme\<close>\<close>

text \<open>
  The dict \<^verbatim>\<open>themes\<close> in its insertion order, which is the order
  \<^verbatim>\<open>themes.items()\<close> iterates in.
\<close>

definition themes :: "(string \<times> string list) list" where
  "themes =
    [(''time'', [''time'', ''hour'', ''minute'', ''second'', ''day'', ''week'', ''month'', ''year'']),
     (''family'', [''mother'', ''father'', ''brother'', ''sister'', ''family'', ''parent'', ''child'']),
     (''work'', [''work'', ''job'', ''office'', ''boss'', ''employee'', ''meeting'', ''project'']),
     (''food'', [''food'', ''eat'', ''drink'', ''water'', ''coffee'', ''tea'', ''meal'', ''restaurant'']),
     (''home'', [''house'', ''home'', ''room'', ''bed'', ''kitchen'', ''bathroom'', ''garden'']),
     (''school'', [''school'', ''student'', ''teacher'', ''class'', ''lesson'', ''homework'', ''exam'']),
     (''health'', [''health'', ''doctor'', ''hospital'', ''medicine'', ''sick'', ''healthy'', ''exercise'']),
     (''money'', [''money'', ''bank'', ''pay'', ''price'', ''cost'', ''buy'', ''sell'', ''market'']),
     (''travel'', [''travel'', ''trip'', ''airport'', ''hotel'', ''passport'', ''ticket'', ''destination'']),
     (''technology'', [''computer'', ''phone'', ''internet'', ''email'', ''software'', ''data'', ''digital''])]"

text \<open>The inner loop over one theme's keywords: true at the first keyword found in the word.\<close>

fun keyword_loop :: "string list \<Rightarrow> string \<Rightarrow> bool" where
  "keyword_loop [] w = False"
| "keyword_loop (k # ks) w = (if contains w k then True else keyword_loop ks w)"

text \<open>The outer loop over the themes: it returns at the first theme whose inner loop hits.\<close>

fun theme_loop :: "(string \<times> string list) list \<Rightarrow> string \<Rightarrow> string" where
  "theme_loop [] w = ''general''"
| "theme_loop ((theme, keywords) # rest) w =
     (if keyword_loop keywords w then theme else theme_loop rest w)"

definition extract_theme :: "string \<Rightarrow> string" where
  "extract_theme word = (let word_lower = lower word in theme_loop themes word_lower)"

subsection \<open>\<^verbatim>\<open>_is_practical_word\<close>\<close>

definition practical_words :: "string list" where
  "practical_words =
    [''hello'', ''goodbye'', ''please'', ''thank'', ''sorry'', ''excuse'',
     ''help'', ''need'', ''want'', ''have'', ''do'', ''make'', ''take'', ''give'',
     ''go'', ''come'', ''see'', ''look'', ''hear'', ''say'', ''tell'', ''ask'',
     ''eat'', ''drink'', ''sleep'', ''work'', ''study'', ''learn'', ''teach'',
     ''buy'', ''sell'', ''pay'', ''cost'', ''price'', ''money'', ''time'', ''day'']"

definition is_practical_word :: "string \<Rightarrow> bool" where
  "is_practical_word word = list_ex (\<lambda>practical. contains (lower word) practical) practical_words"

subsection \<open>\<^verbatim>\<open>_is_interesting_word\<close>\<close>

definition common_words :: "string list" where
  "common_words =
    [''the'', ''be'', ''to'', ''of'', ''and'', ''a'', ''in'', ''that'', ''have'', ''i'',
     ''it'', ''for'', ''not'', ''on'', ''with'', ''he'', ''as'', ''you'', ''do'', ''at'']"

definition interesting_patterns :: "string list" where
  "interesting_patterns =
    [''anti'', ''auto'', ''bio'', ''geo'', ''hyper'', ''inter'', ''macro'',
     ''micro'', ''multi'', ''neo'', ''omni'', ''poly'', ''tele'', ''trans'']"

definition is_interesting_word :: "string \<Rightarrow> bool" where
  "is_interesting_word word =
     (let word_lower = lower word in
      if length word > 8 then True
      else if list_ex (\<lambda>pattern. contains word_lower pattern) interesting_patterns then True
      else word_lower \<notin> set common_words)"

text \<open>
  The classifier as the specification words it: (long, or holding an affix), and not a
  stop word.
\<close>

definition spec_is_interesting :: "string \<Rightarrow> bool" where
  "spec_is_interesting word =
     ((length word > 8 \<or> list_ex (\<lambda>pattern. contains (lower word) pattern) interesting_patterns)
      \<and> lower word \<notin> set common_words)"

section \<open>Randomness\<close>

text \<open>
  The module \<^verbatim>\<open>random\<close> is modelled by an explicit source of draws that the code
  threads through its calls: a list of natural numbers, read from the front (an exhausted
  source yields 0). Every outcome of \<^verbatim>\<open>random.choice\<close> and \<^verbatim>\<open>random.sample\<close>
  is the outcome for some source, and the theorems below hold for every source.
\<close>

type_synonym rng = "nat list"

fun next_rand :: "rng \<Rightarrow> nat \<times> rng" where
  "next_rand [] = (0, [])"
| "next_rand (r # rs) = (r, rs)"

text \<open>\<^verbatim>\<open>random.choice(seq)\<close>: IndexError on an empty sequence.\<close>

definition choice :: "rng \<Rightarrow> 'a list \<Rightarrow> py_error + ('a \<times> rng)" where
  "choice g xs =
     (if xs = [] then Inl IndexError
      else (case next_rand g of (r, g') \<Rightarrow> Inr (xs ! (r mod length xs), g')))"

text \<open>
  \<open>draw g xs k\<close> takes \<open>k\<close> elements at distinct positions of \<open>xs\<close>, one draw each;
  \<^verbatim>\<open>random.sample(population, k)\<close> is \<open>draw\<close> behind the check that raises ValueError
  when the sample is larger than the population.
\<close>

fun draw :: "rng \<Rightarrow> 'a list \<Rightarrow> nat \<Rightarrow> 'a list \<times> rng" where
  "draw g xs 0 = ([], g)"
| "draw g [] (Suc k) = ([], g)"
| "draw g (x # xs) (Suc k) =
     (case next_rand g of (r, g') \<Rightarrow>
        (case draw g' (take (r mod Suc (length xs)) (x # xs) @ drop (Suc (r mod Suc (length xs))) (x # xs)) k
         of (ys, g'') \<Rightarrow> ((x # xs) ! (r mod Suc (length xs)) # ys, g'')))"

definition sample :: "rng \<Rightarrow> 'a list \<Rightarrow> nat \<Rightarrow> py_error + ('a list \<times> rng)" where
  "sample g population k =
     (if length population < k then Inl ValueError else Inr (draw g population k))"

section \<open>Python lists and dicts\<close>

text \<open>The slice \<^verbatim>\<open>xs[:n]\<close>; a negative \<open>n\<close> counts from the end.\<close>

definition py_take :: "int \<Rightarrow> 'a list \<Rightarrow> 'a list" where
  "py_take n xs = (if n < 0 then take (nat (int (length xs) + n)) xs else take (nat n) xs)"

text \<open>
  The grouping loop
  \<^verbatim>\<open>if key not in groups: groups[key] = []\<close>, \<^verbatim>\<open>groups[key].append(word)\<close>:
  the dict is an association list in insertion order, the order of \<^verbatim>\<open>.items()\<close>.
\<close>

fun group_insert :: "'k \<Rightarrow> 'a \<Rightarrow> ('k \<times> 'a list) list \<Rightarrow> ('k \<times> 'a list) list" where
  "group_insert k x [] = [(k, [x])]"
| "group_insert k x ((k', xs) # rest) =
     (if k' = k then (k', xs @ [x]) # rest else (k', xs) # group_insert k x rest)"

definition group_by :: "('a \<Rightarrow> 'k) \<Rightarrow> 'a list \<Rightarrow> ('k \<times> 'a list) list" where
  "group_by key_of xs = foldl (\<lambda>groups x. group_insert (key_of x) x groups) [] xs"

section \<open>\<^verbatim>\<open>_intelligent_selection\<close>\<close>

text \<open>
  The numbers of entries to draw. \<^verbatim>\<open>max(1, int(limit * 0.3))\<close>,
  \<^verbatim>\<open>max(1, int(limit * 0.2))\<close> and \<^verbatim>\<open>max(1, int(limit * 0.3 / n))\<close> are computed in
  floating point and truncated; for every limit a vocabulary list can have as a length
  the result is that of the integer divisions below (where the quotient is not positive
  both are 1).
\<close>

definition share30 :: "int \<Rightarrow> int" where
  "share30 limit = max 1 ((3 * limit) div 10)"

definition share20 :: "int \<Rightarrow> int" where
  "share20 limit = max 1 (limit div 5)"

definition theme_share :: "int \<Rightarrow> nat \<Rightarrow> int" where
  "theme_share limit n = max 1 ((3 * limit) div (10 * int n))"

text \<open>
  \<^verbatim>\<open>selected.extend(random.sample(group_words, min(num_to_select, len(group_words))))\<close>
\<close>

definition sample_extend ::
  "rng \<Rightarrow> 'a list \<Rightarrow> 'a list \<Rightarrow> int \<Rightarrow> py_error + ('a list \<times> rng)" where
  "sample_extend g selected group_words num_to_select =
     (case sample g group_words (nat (min num_to_select (int (length group_words)))) of
        Inl e \<Rightarrow> Inl e
      | Inr (drawn, g') \<Rightarrow> Inr (selected @ drawn, g'))"

text \<open>Pass 1: the loop over the three complexity values.\<close>

fun complexity_pass ::
  "rng \<Rightarrow> (string \<times> VocabularyItem list) list \<Rightarrow> int \<Rightarrow> string list \<Rightarrow> VocabularyItem list
   \<Rightarrow> py_error + (VocabularyItem list \<times> rng)" where
  "complexity_pass g complexity_groups limit [] selected = Inr (selected, g)"
| "complexity_pass g complexity_groups limit (c # comps) selected =
     (case map_of complexity_groups c of
        None \<Rightarrow> complexity_pass g complexity_groups limit comps selected
      | Some group_words \<Rightarrow>
          (case sample_extend g selected group_words (share30 limit) of
             Inl e \<Rightarrow> Inl e
           | Inr (selected', g') \<Rightarrow> complexity_pass g' complexity_groups limit comps selected'))"

text \<open>Pass 2: the loop over the first five thematic groups; \<open>n\<close> is the number of all groups.\<close>

fun theme_pass ::
  "rng \<Rightarrow> (string \<times> VocabularyItem list) list \<Rightarrow> int \<Rightarrow> nat \<Rightarrow> VocabularyItem list
   \<Rightarrow> py_error + (VocabularyItem list \<times> rng)" where
  "theme_pass g [] limit n selected = Inr (selected, g)"
| "theme_pass g ((theme, group_words) # rest) limit n selected =
     (if group_words \<noteq> [] then
        (case sample_extend g selected group_words (theme_share limit n) of
           Inl e \<Rightarrow> Inl e
         | Inr (selected', g') \<Rightarrow> theme_pass g' rest limit n selected')
      else theme_pass g rest limit n selected)"

text \<open>Passes 3 and 4: one draw from the filtered words, when there are any.\<close>

definition filtered_pass ::
  "rng \<Rightarrow> VocabularyItem list \<Rightarrow> int \<Rightarrow> VocabularyItem list
   \<Rightarrow> py_error + (VocabularyItem list \<times> rng)" where
  "filtered_pass g words limit selected =
     (if words \<noteq> [] then sample_extend g selected words (share20 limit) else Inr (selected, g))"

text \<open>The four passes in sequence, from the empty list \<^verbatim>\<open>selected\<close>.\<close>

definition selection_passes ::
  "rng \<Rightarrow> VocabularyItem list \<Rightarrow> int \<Rightarrow> py_error + (VocabularyItem list \<times> rng)" where
  "selection_passes g vocabulary limit =
     (let complexity_groups = group_by (\<lambda>word. level_value (complexity word)) vocabulary in
      case complexity_pass g complexity_groups limit [''basic'', ''intermediate'', ''advanced''] [] of
        Inl e \<Rightarrow> Inl e
      | Inr (selected1, g1) \<Rightarrow>
     (let thematic_groups = group_by (\<lambda>word. extract_theme (english_word word)) vocabulary in
      case theme_pass g1 (take 5 thematic_groups) limit (length thematic_groups) selected1 of
        Inl e \<Rightarrow> Inl e
      | Inr (selected2, g2) \<Rightarrow>
     (let practical = filter (\<lambda>w. is_practical_word (english_word w)) vocabulary in
      case filtered_pass g2 practical limit selected2 of
        Inl e \<Rightarrow> Inl e
      | Inr (selected3, g3) \<Rightarrow>
     (let interesting = filter (\<lambda>w. is_interesting_word (english_word w)) vocabulary in
      filtered_pass g3 interesting limit selected3))))"

text \<open>The de-duplication loop, with its set \<^verbatim>\<open>seen_ids\<close> and list \<^verbatim>\<open>unique_selected\<close>.\<close>

fun dedup ::
  "VocabularyItem list \<Rightarrow> string set \<Rightarrow> VocabularyItem list \<Rightarrow> VocabularyItem list \<times> string set" where
  "dedup [] seen_ids unique_selected = (unique_selected, seen_ids)"
| "dedup (word # rest) seen_ids unique_selected =
     (if item_id word \<notin> seen_ids
      then dedup rest (insert (item_id word) seen_ids) (unique_selected @ [word])
      else dedup rest seen_ids unique_selected)"

text \<open>The backfill from the entries not yet selected.\<close>

definition backfill ::
  "rng \<Rightarrow> VocabularyItem list \<Rightarrow> int \<Rightarrow> VocabularyItem list \<Rightarrow> string set
   \<Rightarrow> py_error + (VocabularyItem list \<times> rng)" where
  "backfill g vocabulary limit unique_selected seen_ids =
     (if int (length unique_selected) < limit then
        (let remaining = filter (\<lambda>w. item_id w \<notin> seen_ids) vocabulary;
             needed = limit - int (length unique_selected)
         in if remaining \<noteq> [] then sample_extend g unique_selected remaining needed
            else Inr (unique_selected, g))
      else Inr (unique_selected, g))"

definition intelligent_selection ::
  "rng \<Rightarrow> VocabularyItem list \<Rightarrow> int \<Rightarrow> py_error + (VocabularyItem list \<times> rng)" where
  "intelligent_selection g vocabulary limit =
     (if int (length vocabulary) \<le> limit then Inr (vocabulary, g)
      else
        (case selection_passes g vocabulary limit of
           Inl e \<Rightarrow> Inl e
         | Inr (selected, g') \<Rightarrow>
             (case dedup selected {} [] of (unique_selected, seen_ids) \<Rightarrow>
                (case backfill g' vocabulary limit unique_selected seen_ids of
                   Inl e \<Rightarrow> Inl e
                 | Inr (final, g'') \<Rightarrow> Inr (py_take limit final, g'')))))"

section \<open>\<^verbatim>\<open>_get_fallback_vocabulary\<close> and \<^verbatim>\<open>_generate_vocabulary\<close>\<close>

text \<open>
  The built-in table \<^verbatim>\<open>fallback_vocab\<close>; its entries carry the requested category.
  Text outside ASCII is written as its UTF-8 bytes.
\<close>

definition daily_life_fallback :: "string \<Rightarrow> VocabularyItem list" where
  "daily_life_fallback cat =
    [\<lparr>item_id = ''fallback_1'', category = cat, english_word = ''hello'',
      spanish_translation = ''hola'', example_sentence = ''Hello, how are you?'',
      complexity = BASIC,
      pronunciation = Some (''/h'' @ [CHR 0xC9, CHR 0x99, CHR 0xCB, CHR 0x88] @ ''lo''
        @ [CHR 0xCA, CHR 0x8A] @ ''/'')\<rparr>,
     \<lparr>item_id = ''fallback_2'', category = cat, english_word = ''thank you'',
      spanish_translation = ''gracias'', example_sentence = ''Thank you for your help.'',
      complexity = BASIC,
      pronunciation = Some (''/'' @ [CHR 0xCB, CHR 0x88, CHR 0xCE, CHR 0xB8, CHR 0xC3, CHR 0xA6,
        CHR 0xC5, CHR 0x8B] @ ''k ju'' @ [CHR 0xCB, CHR 0x90] @ ''/'')\<rparr>]"

definition fallback_vocab :: "string \<Rightarrow> (string \<times> VocabularyItem list) list" where
  "fallback_vocab cat =
    [(''daily_life'', daily_life_fallback cat),
     (''work'',
      [\<lparr>item_id = ''fallback_3'', category = cat, english_word = ''meeting'',
        spanish_translation = ''reuni'' @ [CHR 0xC3, CHR 0xB3] @ ''n'',
        example_sentence = ''We have a meeting at 3 PM.'',
        complexity = INTERMEDIATE,
        pronunciation = Some (''/'' @ [CHR 0xCB, CHR 0x88] @ ''mi'' @ [CHR 0xCB, CHR 0x90] @ ''t''
          @ [CHR 0xC9, CHR 0xAA, CHR 0xC5, CHR 0x8B] @ ''/'')\<rparr>]),
     (''education'',
      [\<lparr>item_id = ''fallback_4'', category = cat, english_word = ''student'',
        spanish_translation = ''estudiante'',
        example_sentence = ''The student is studying English.'',
        complexity = BASIC,
        pronunciation = Some (''/'' @ [CHR 0xCB, CHR 0x88] @ ''stu'' @ [CHR 0xCB, CHR 0x90] @ ''d''
          @ [CHR 0xC9, CHR 0x99] @ ''nt/'')\<rparr>])]"

text \<open>
  \<^verbatim>\<open>fallback_vocab.get(category, fallback_vocab["daily_life"])\<close>, the level filter
  (\<^verbatim>\<open>if user_level:\<close> holds for every level, a non-empty string) and the slice.
\<close>

definition get_fallback_vocabulary ::
  "string \<Rightarrow> EnglishLevel option \<Rightarrow> int \<Rightarrow> VocabularyItem list" where
  "get_fallback_vocabulary cat user_level limit =
     (let vocab_list = (case map_of (fallback_vocab cat) cat of
                          Some l \<Rightarrow> l
                        | None \<Rightarrow> daily_life_fallback cat);
          vocab_list' = (case user_level of
                           Some lvl \<Rightarrow> filter (\<lambda>v. complexity v = lvl) vocab_list
                         | None \<Rightarrow> vocab_list)
      in py_take limit vocab_list')"

text \<open>
  The values \<^verbatim>\<open>json.loads\<close> returns (numbers as integers). The parser itself belongs to
  the standard library and is a parameter \<open>json_loads\<close> of the model: it returns the
  parsed value or the exception it raises.
\<close>

datatype json = JNull | JBool bool | JNumber int | JString string | JArray "json list"
  | JObject "(string \<times> json) list"

text \<open>\<^verbatim>\<open>d.get(key, default)\<close> of a dict.\<close>

definition dict_get :: "(string \<times> json) list \<Rightarrow> string \<Rightarrow> json \<Rightarrow> json" where
  "dict_get d k dflt = (case map_of d k of Some v \<Rightarrow> v | None \<Rightarrow> dflt)"

text \<open>
  What \<^verbatim>\<open>enumerate(...)\<close> iterates over: the elements of a list, the characters of a
  string, the keys of a dict; any other value is not iterable.
\<close>

fun iterate :: "json \<Rightarrow> py_error + json list" where
  "iterate (JArray xs) = Inr xs"
| "iterate (JString s) = Inr (map (\<lambda>c. JString [c]) s)"
| "iterate (JObject d) = Inr (map (\<lambda>p. JString (fst p)) d)"
| "iterate v = Inl TypeError"

text \<open>
  The field checks of the model class: a string field takes a string, the optional field
  also \<^verbatim>\<open>None\<close>, and \<^verbatim>\<open>EnglishLevel(...)\<close> raises ValueError on anything but the three
  level names.
\<close>

fun as_str :: "json \<Rightarrow> py_error + string" where
  "as_str (JString s) = Inr s"
| "as_str v = Inl ValidationError"

fun as_opt_str :: "json \<Rightarrow> py_error + string option" where
  "as_opt_str (JString s) = Inr (Some s)"
| "as_opt_str JNull = Inr None"
| "as_opt_str v = Inl ValidationError"

definition as_level :: "json \<Rightarrow> py_error + EnglishLevel" where
  "as_level v =
     (if v = JString ''basic'' then Inr BASIC
      else if v = JString ''intermediate'' then Inr INTERMEDIATE
      else if v = JString ''advanced'' then Inr ADVANCED
      else Inl ValueError)"

text \<open>Decimal digits of a number, as \<^verbatim>\<open>str(n)\<close> and the f-strings give them.\<close>

fun str_nat :: "nat \<Rightarrow> string" where
  "str_nat n =
     (if n < 10 then [''0123456789'' ! n]
      else str_nat (n div 10) @ [''0123456789'' ! (n mod 10)])"

declare str_nat.simps [simp del]

text \<open>
  One \<^verbatim>\<open>VocabularyItem(...)\<close> of the loop: \<^verbatim>\<open>item_data.get\<close> needs a dict
  (AttributeError otherwise).
\<close>

definition make_item :: "string \<Rightarrow> string \<Rightarrow> json \<Rightarrow> py_error + VocabularyItem" where
  "make_item cat ident item_data =
     (case item_data of
        JObject d \<Rightarrow>
          (case as_level (dict_get d ''complexity'' (JString ''basic'')) of
             Inl e \<Rightarrow> Inl e
           | Inr lvl \<Rightarrow>
          (case as_str (dict_get d ''english_word'' (JString [])) of
             Inl e \<Rightarrow> Inl e
           | Inr ew \<Rightarrow>
          (case as_str (dict_get d ''spanish_translation'' (JString [])) of
             Inl e \<Rightarrow> Inl e
           | Inr st \<Rightarrow>
          (case as_str (dict_get d ''example_sentence'' (JString [])) of
             Inl e \<Rightarrow> Inl e
           | Inr es \<Rightarrow>
          (case as_opt_str (dict_get d ''pronunciation'' JNull) of
             Inl e \<Rightarrow> Inl e
           | Inr pr \<Rightarrow>
               Inr \<lparr>item_id = ident, category = cat, english_word = ew,
                    spanish_translation = st, example_sentence = es,
                    complexity = lvl, pronunciation = pr\<rparr>)))))
      | _ \<Rightarrow> Inl AttributeError)"

text \<open>
  The loop over \<^verbatim>\<open>enumerate(...)\<close>; \<open>now i\<close> is the text of
  \<^verbatim>\<open>datetime.now().timestamp()\<close> at item \<open>i\<close>.
\<close>

fun build_items :: "(nat \<Rightarrow> string) \<Rightarrow> string \<Rightarrow> nat \<Rightarrow> json list \<Rightarrow> py_error + VocabularyItem list" where
  "build_items now cat i [] = Inr []"
| "build_items now cat i (item_data # rest) =
     (case make_item cat (''gen_'' @ cat @ ''_'' @ str_nat i @ ''_'' @ now i) item_data of
        Inl e \<Rightarrow> Inl e
      | Inr item \<Rightarrow>
          (case build_items now cat (Suc i) rest of
             Inl e \<Rightarrow> Inl e
           | Inr items \<Rightarrow> Inr (item # items)))"

text \<open>
  The body of the \<^verbatim>\<open>try\<close>. \<open>response\<close> is what \<^verbatim>\<open>groq_client.generate_response\<close>
  returned: a text, or \<^verbatim>\<open>None\<close> (the client turns its own exceptions into a text).
\<close>

definition generate_body ::
  "(string \<Rightarrow> py_error + json) \<Rightarrow> string option \<Rightarrow> (nat \<Rightarrow> string) \<Rightarrow> string
   \<Rightarrow> py_error + VocabularyItem list" where
  "generate_body json_loads response now cat =
     (case response of
        None \<Rightarrow> Inl TypeError
      | Some txt \<Rightarrow>
          (case json_loads txt of
             Inl e \<Rightarrow> Inl e
           | Inr (JObject d) \<Rightarrow>
               (case iterate (dict_get d ''vocabulary'' (JArray [])) of
                  Inl e \<Rightarrow> Inl e
                | Inr item_datas \<Rightarrow> build_items now cat 0 item_datas)
           | Inr _ \<Rightarrow> Inl AttributeError))"

text \<open>\<^verbatim>\<open>try: ... except Exception: return self._get_fallback_vocabulary(...)\<close>\<close>

definition generate_vocabulary ::
  "(string \<Rightarrow> py_error + json) \<Rightarrow> string option \<Rightarrow> (nat \<Rightarrow> string) \<Rightarrow> string
   \<Rightarrow> EnglishLevel option \<Rightarrow> int \<Rightarrow> VocabularyItem list" where
  "generate_vocabulary json_loads response now cat user_level limit =
     (case generate_body json_loads response now cat of
        Inl e \<Rightarrow> get_fallback_vocabulary cat user_level limit
      | Inr vocabulary_items \<Rightarrow> vocabulary_items)"

section \<open>\<^verbatim>\<open>get_category_vocabulary\<close>\<close>

text \<open>\<^verbatim>\<open>level_order.get(name, 1)\<close> and the sort key of the other-level entries.\<close>

definition level_order :: "(string \<times> int) list" where
  "level_order = [(''basic'', 0), (''intermediate'', 1), (''advanced'', 2)]"

definition level_num :: "string \<Rightarrow> int" where
  "level_num name = (case map_of level_order name of Some n \<Rightarrow> n | None \<Rightarrow> 1)"

definition proximity :: "EnglishLevel \<Rightarrow> VocabularyItem \<Rightarrow> int" where
  "proximity user_level x =
     \<bar>level_num (level_value (complexity x)) - level_num (level_value user_level)\<bar>"

text \<open>The ordinal scale of the specification: basic 0, intermediate 1, advanced 2.\<close>

fun level_ordinal :: "EnglishLevel \<Rightarrow> int" where
  "level_ordinal BASIC = 0"
| "level_ordinal INTERMEDIATE = 1"
| "level_ordinal ADVANCED = 2"

text \<open>
  The level filter and its backfill. \<^verbatim>\<open>list.sort\<close> is stable, as \<open>sort_key\<close> is.
\<close>

definition level_filter :: "VocabularyItem list \<Rightarrow> EnglishLevel option \<Rightarrow> int \<Rightarrow> VocabularyItem list" where
  "level_filter all_vocab user_level limit =
     (case user_level of
        Some lvl \<Rightarrow>
          (let filtered_vocab = filter (\<lambda>v. complexity v = lvl) all_vocab in
           if int (length filtered_vocab) < limit then
             (let other_vocab = filter (\<lambda>v. complexity v \<noteq> lvl) all_vocab;
                  other_sorted = sort_key (proximity lvl) other_vocab
              in filtered_vocab @ py_take (limit - int (length filtered_vocab)) other_sorted)
           else filtered_vocab)
      | None \<Rightarrow> all_vocab)"

text \<open>
  \<open>all_vocab\<close> is what the store returned for the category
  (\<^verbatim>\<open>sheets_client.get_vocabulary_by_category(category, None, 100)\<close>).
\<close>

definition get_category_vocabulary ::
  "(string \<Rightarrow> py_error + json) \<Rightarrow> string option \<Rightarrow> (nat \<Rightarrow> string) \<Rightarrow> rng
   \<Rightarrow> VocabularyItem list \<Rightarrow> string \<Rightarrow> EnglishLevel option \<Rightarrow> int
   \<Rightarrow> py_error + (VocabularyItem list \<times> rng)" where
  "get_category_vocabulary json_loads response now g all_vocab cat user_level limit =
     (if all_vocab = [] then
        Inr (generate_vocabulary json_loads response now cat user_level limit, g)
      else intelligent_selection g (level_filter all_vocab user_level limit) limit)"

section \<open>Exercises\<close>

text \<open>
  The exercise dicts. Every exercise has the keys \<^verbatim>\<open>type\<close>, \<^verbatim>\<open>title\<close> and
  \<^verbatim>\<open>instructions\<close> and a payload that depends on its type.
\<close>

record fill_sentence =
  sentence :: string
  correct_word :: string
  options :: "string list"

datatype payload =
    Pairs "(string \<times> string) list" bool
  | Sentences "fill_sentence list"
  | Words "string list"
  | RequiredWords "string list" string
  | Translations "(string \<times> string) list"

record exercise =
  ex_type :: string
  ex_title :: string
  ex_instructions :: string
  ex_payload :: payload

text \<open>
  One element of the \<^verbatim>\<open>sentences\<close> comprehension: the blank is put in by
  \<^verbatim>\<open>str.replace\<close>, the distractor is a \<^verbatim>\<open>random.choice\<close> among the words of the
  entries that differ from this one.
\<close>

definition fill_blank_item ::
  "rng \<Rightarrow> VocabularyItem list \<Rightarrow> VocabularyItem \<Rightarrow> py_error + (fill_sentence \<times> rng)" where
  "fill_blank_item g vocabulary word =
     (case choice g (map english_word (filter (\<lambda>w. w \<noteq> word) vocabulary)) of
        Inl e \<Rightarrow> Inl e
      | Inr (distractor, g') \<Rightarrow>
          Inr (\<lparr>sentence = py_replace (example_sentence word) (english_word word) ''_____'',
                correct_word = english_word word,
                options = [english_word word, distractor, ''different word'']\<rparr>, g'))"

fun fill_blank_items ::
  "rng \<Rightarrow> VocabularyItem list \<Rightarrow> VocabularyItem list \<Rightarrow> py_error + (fill_sentence list \<times> rng)" where
  "fill_blank_items g vocabulary [] = Inr ([], g)"
| "fill_blank_items g vocabulary (word # rest) =
     (case fill_blank_item g vocabulary word of
        Inl e \<Rightarrow> Inl e
      | Inr (s, g') \<Rightarrow>
          (case fill_blank_items g' vocabulary rest of
             Inl e \<Rightarrow> Inl e
           | Inr (ss, g'') \<Rightarrow> Inr (s # ss, g'')))"

definition matching_exercise :: "VocabularyItem list \<Rightarrow> exercise" where
  "matching_exercise vocabulary =
    \<lparr>ex_type = ''matching'', ex_title = ''Empareja las palabras'',
     ex_instructions = ''Empareja cada palabra en ingl'' @ [CHR 0xC3, CHR 0xA9]
       @ ''s con su traducci'' @ [CHR 0xC3, CHR 0xB3] @ ''n en espa'' @ [CHR 0xC3, CHR 0xB1] @ ''ol'',
     ex_payload = Pairs (map (\<lambda>word. (english_word word, spanish_translation word))
                          (take 4 vocabulary)) True\<rparr>"

definition fill_blank_exercise :: "fill_sentence list \<Rightarrow> exercise" where
  "fill_blank_exercise ss =
    \<lparr>ex_type = ''fill_blank'', ex_title = ''Completa las oraciones'',
     ex_instructions = ''Completa cada oraci'' @ [CHR 0xC3, CHR 0xB3]
       @ ''n con la palabra correcta'',
     ex_payload = Sentences ss\<rparr>"

definition create_basic_exercises ::
  "rng \<Rightarrow> VocabularyItem list \<Rightarrow> py_error + (exercise list \<times> rng)" where
  "create_basic_exercises g vocabulary =
     (let exercises = (if length vocabulary \<ge> 4 then [matching_exercise vocabulary] else []) in
      if length vocabulary \<ge> 3 then
        (case fill_blank_items g vocabulary (take 3 vocabulary) of
           Inl e \<Rightarrow> Inl e
         | Inr (ss, g') \<Rightarrow> Inr (exercises @ [fill_blank_exercise ss], g'))
      else Inr (exercises, g))"

definition sentence_creation_exercise :: "VocabularyItem list \<Rightarrow> exercise" where
  "sentence_creation_exercise vocabulary =
    \<lparr>ex_type = ''sentence_creation'', ex_title = ''Crea oraciones'',
     ex_instructions = ''Crea una oraci'' @ [CHR 0xC3, CHR 0xB3]
       @ ''n original usando cada palabra'',
     ex_payload = Words (map english_word (take 5 vocabulary))\<rparr>"

definition synonyms_exercise :: "VocabularyItem list \<Rightarrow> exercise" where
  "synonyms_exercise vocabulary =
    \<lparr>ex_type = ''synonyms'', ex_title = ''Encuentra sin'' @ [CHR 0xC3, CHR 0xB3] @ ''nimos'',
     ex_instructions = ''Para cada palabra, encuentra un sin'' @ [CHR 0xC3, CHR 0xB3]
       @ ''nimo apropiado'',
     ex_payload = Words (map english_word (take 4 vocabulary))\<rparr>"

definition create_intermediate_exercises ::
  "rng \<Rightarrow> VocabularyItem list \<Rightarrow> py_error + (exercise list \<times> rng)" where
  "create_intermediate_exercises g vocabulary =
     (case create_basic_exercises g vocabulary of
        Inl e \<Rightarrow> Inl e
      | Inr (exercises, g') \<Rightarrow>
          (let exercises1 = (if length vocabulary \<ge> 5
                             then exercises @ [sentence_creation_exercise vocabulary]
                             else exercises);
               exercises2 = (if length vocabulary \<ge> 4
                             then exercises1 @ [synonyms_exercise vocabulary]
                             else exercises1)
           in Inr (exercises2, g')))"

text \<open>
  The debate exercise reads \<^verbatim>\<open>vocabulary[0].category\<close>, under the guard that the list
  has at least three entries.
\<close>

definition debate_exercise :: "VocabularyItem list \<Rightarrow> exercise" where
  "debate_exercise vocabulary =
    \<lparr>ex_type = ''debate'', ex_title = ''Expresa tu opini'' @ [CHR 0xC3, CHR 0xB3] @ ''n'',
     ex_instructions = ''Escribe un p'' @ [CHR 0xC3, CHR 0xA1] @ ''rrafo breve sobre '' @ [CHR 0x27]
       @ category (hd vocabulary) @ [CHR 0x27]
       @ '' usando al menos 3 palabras del vocabulario'',
     ex_payload = RequiredWords (map english_word (take 3 vocabulary)) ''50-100 palabras''\<rparr>"

definition reverse_translation_exercise :: "VocabularyItem list \<Rightarrow> exercise" where
  "reverse_translation_exercise vocabulary =
    \<lparr>ex_type = ''reverse_translation'',
     ex_title = ''Traducci'' @ [CHR 0xC3, CHR 0xB3] @ ''n al ingl'' @ [CHR 0xC3, CHR 0xA9] @ ''s'',
     ex_instructions = ''Traduce estas oraciones al ingl'' @ [CHR 0xC3, CHR 0xA9]
       @ ''s usando las palabras aprendidas'',
     ex_payload = Translations
       (map (\<lambda>word. (''Ejemplo en espa'' @ [CHR 0xC3, CHR 0xB1] @ ''ol usando ''
                       @ spanish_translation word, english_word word))
            (take 4 vocabulary))\<rparr>"

definition create_advanced_exercises ::
  "rng \<Rightarrow> VocabularyItem list \<Rightarrow> py_error + (exercise list \<times> rng)" where
  "create_advanced_exercises g vocabulary =
     (case create_intermediate_exercises g vocabulary of
        Inl e \<Rightarrow> Inl e
      | Inr (exercises, g') \<Rightarrow>
          (let exercises1 = (if length vocabulary \<ge> 3
                             then exercises @ [debate_exercise vocabulary]
                             else exercises);
               exercises2 = (if length vocabulary \<ge> 4
                             then exercises1 @ [reverse_translation_exercise vocabulary]
                             else exercises1)
           in Inr (exercises2, g')))"

text \<open>The dispatch on the level, as \<^verbatim>\<open>create_vocabulary_lesson\<close> does it.\<close>

fun create_exercises ::
  "rng \<Rightarrow> EnglishLevel \<Rightarrow> VocabularyItem list \<Rightarrow> py_error + (exercise list \<times> rng)" where
  "create_exercises g BASIC vocabulary = create_basic_exercises g vocabulary"
| "create_exercises g INTERMEDIATE vocabulary = create_intermediate_exercises g vocabulary"
| "create_exercises g ADVANCED vocabulary = create_advanced_exercises g vocabulary"

section \<open>\<^verbatim>\<open>create_vocabulary_lesson\<close>\<close>

record thematic_group =
  theme :: string
  words :: "string list"
  word_total :: nat

record lesson =
  title :: string
  description :: string
  vocabulary :: "VocabularyItem list"
  thematic_groups :: "thematic_group list"
  exercises :: "exercise list"
  estimated_time :: string
  learning_objectives :: "string list"

text \<open>
  What the function returns: the dict with the key \<^verbatim>\<open>error\<close>, or the lesson dict.
  (\<open>word_total\<close> is the key \<^verbatim>\<open>count\<close> of a thematic group.)
\<close>

datatype lesson_result = ErrorResult string | LessonResult lesson

definition create_vocabulary_lesson ::
  "rng \<Rightarrow> VocabularyItem list \<Rightarrow> EnglishLevel \<Rightarrow> py_error + (lesson_result \<times> rng)" where
  "create_vocabulary_lesson g vocab user_level =
     (if vocab = [] then Inr (ErrorResult ''No hay vocabulario disponible'', g)
      else
        (let groups = group_by (\<lambda>word. extract_theme (english_word word)) vocab in
         case create_exercises g user_level vocab of
           Inl e \<Rightarrow> Inl e
         | Inr (exs, g') \<Rightarrow>
             Inr (LessonResult
               \<lparr>title = ''Vocabulario: '' @ category (hd vocab),
                description = ''Lecci'' @ [CHR 0xC3, CHR 0xB3] @ ''n de '' @ str_nat (length vocab)
                  @ '' palabras para nivel '' @ level_value user_level,
                vocabulary = vocab,
                thematic_groups =
                  map (\<lambda>(t, ws). \<lparr>theme = t, words = map english_word (take 3 ws),
                                   word_total = length ws\<rparr>)
                      (take 3 groups),
                exercises = exs,
                estimated_time = str_nat (length vocab * 2) @ '' minutos'',
                learning_objectives =
                  [''Memorizar palabras clave'', ''Usar palabras en contexto'',
                   ''Practicar pronunciaci'' @ [CHR 0xC3, CHR 0xB3] @ ''n'',
                   ''Aplicar en conversaciones'']\<rparr>, g')))"

section \<open>Example entries\<close>

text \<open>An entry with a given id, English term and level, for the concrete instances below.\<close>

definition example_entry :: "string \<Rightarrow> string \<Rightarrow> EnglishLevel \<Rightarrow> VocabularyItem" where
  "example_entry ident word lvl =
    \<lparr>item_id = ident, category = ''daily_life'', english_word = word,
     spanish_translation = ''es_'' @ word, example_sentence = ''I say '' @ word,
     complexity = lvl, pronunciation = None\<rparr>"

section \<open>Properties of the string functions\<close>

lemma startswith_iff: "startswith s k \<longleftrightarrow> (\<exists>b. s = k @ b)"
  by (induction s k rule: startswith.induct) auto

lemma contains_iff: "contains s k \<longleftrightarrow> (\<exists>a b. s = a @ k @ b)"
proof (induction s)
  case Nil
  then show ?case by auto
next
  case (Cons c cs)
  show ?case
  proof
    assume "contains (c # cs) k"
    then consider "startswith (c # cs) k" | "contains cs k" by auto
    then show "\<exists>a b. c # cs = a @ k @ b"
    proof cases
      case 1
      then obtain b where "c # cs = k @ b" by (auto simp: startswith_iff)
      then have "c # cs = [] @ k @ b" by simp
      then show ?thesis by blast
    next
      case 2
      then obtain a b where "cs = a @ k @ b" using Cons.IH by blast
      then have "c # cs = (c # a) @ k @ b" by simp
      then show ?thesis by blast
    qed
  next
    assume "\<exists>a b. c # cs = a @ k @ b"
    then obtain a b where ab: "c # cs = a @ k @ b" by blast
    show "contains (c # cs) k"
    proof (cases a)
      case Nil
      with ab have "startswith (c # cs) k" by (auto simp: startswith_iff)
      then show ?thesis by simp
    next
      case (Cons x a')
      with ab have "cs = a' @ k @ b" by simp
      then have "contains cs k" using Cons.IH by blast
      then show ?thesis by simp
    qed
  qed
qed

lemma length_lower: "length (lower s) = length s"
  by (simp add: lower_def)

lemma keyword_loop_iff: "keyword_loop ks w \<longleftrightarrow> (\<exists>k\<in>set ks. contains w k)"
  by (induction ks) auto

lemma replace_from_absent:
  "\<not> contains s old \<Longrightarrow> replace_from s old new = s"
proof (induction s old new rule: replace_from.induct)
  case (1 old new)
  then show ?case by simp
next
  case (2 c cs new)
  then show ?case by simp
next
  case (3 c cs k ks new)
  then show ?case by auto
qed

section \<open>Theme classification\<close>

lemma theme_loop_first:
  assumes "i < length ths"
    and "keyword_loop (snd (ths ! i)) w"
    and "\<forall>j<i. \<not> keyword_loop (snd (ths ! j)) w"
  shows "theme_loop ths w = fst (ths ! i)"
  using assms
proof (induction ths arbitrary: i)
  case Nil
  then show ?case by simp
next
  case (Cons p ths)
  obtain theme kws where p: "p = (theme, kws)" by (cases p)
  show ?case
  proof (cases i)
    case 0
    with Cons.prems p show ?thesis by simp
  next
    case (Suc n)
    from Cons.prems(3) Suc have "\<not> keyword_loop (snd ((p # ths) ! 0)) w" by blast
    with p have miss: "\<not> keyword_loop kws w" by simp
    have "n < length ths" using Cons.prems(1) Suc by simp
    moreover have "keyword_loop (snd (ths ! n)) w" using Cons.prems(2) Suc by simp
    moreover have "\<forall>j<n. \<not> keyword_loop (snd (ths ! j)) w"
    proof (intro allI impI)
      fix j assume "j < n"
      then have "Suc j < i" using Suc by simp
      with Cons.prems(3) have "\<not> keyword_loop (snd ((p # ths) ! Suc j)) w" by blast
      then show "\<not> keyword_loop (snd (ths ! j)) w" by simp
    qed
    ultimately have "theme_loop ths w = fst (ths ! n)" by (rule Cons.IH)
    with miss p Suc show ?thesis by simp
  qed
qed

lemma theme_loop_none:
  "\<forall>p\<in>set ths. \<not> keyword_loop (snd p) w \<Longrightarrow> theme_loop ths w = ''general''"
  by (induction ths) auto

text \<open>
  Claim C10. When a term holds keywords of several themes, \<open>extract_theme\<close> returns the
  first matching theme in the order of the table: time, family, work, food, home, school,
  health, money, travel, technology. The theme at position \<open>i\<close> is returned when one of
  its keywords occurs in the lower-cased term and no keyword of an earlier theme does; a
  term holding both "day" and "work" is therefore classified as time.
\<close>

theorem extract_theme_first_match:
  assumes "i < length themes"
    and "\<exists>k\<in>set (snd (themes ! i)). contains (lower word) k"
    and "\<forall>j<i. \<forall>k\<in>set (snd (themes ! j)). \<not> contains (lower word) k"
  shows "extract_theme word = fst (themes ! i)
    \<and> map fst themes = [''time'', ''family'', ''work'', ''food'', ''home'', ''school'',
         ''health'', ''money'', ''travel'', ''technology'']"
proof -
  have "keyword_loop (snd (themes ! i)) (lower word)"
    using assms(2) by (simp add: keyword_loop_iff)
  moreover have "\<forall>j<i. \<not> keyword_loop (snd (themes ! j)) (lower word)"
    using assms(3) by (simp add: keyword_loop_iff)
  ultimately have "theme_loop themes (lower word) = fst (themes ! i)"
    using assms(1) by (intro theme_loop_first) auto
  then have "extract_theme word = fst (themes ! i)"
    by (simp add: extract_theme_def)
  moreover have "map fst themes = [''time'', ''family'', ''work'', ''food'', ''home'', ''school'',
         ''health'', ''money'', ''travel'', ''technology'']"
    by (simp add: themes_def)
  ultimately show ?thesis by simp
qed

lemma lower_workday: "lower ''workday'' = ''workday''"
  by (simp add: lower_def lower_char_def upper_letters_def lower_letters_def)

theorem extract_theme_first_match_witness:
  "contains (lower ''workday'') ''work'' \<and> contains (lower ''workday'') ''day''
   \<and> fst (themes ! 0) = ''time'' \<and> fst (themes ! 2) = ''work''
   \<and> extract_theme ''workday'' = ''time''"
proof -
  have a: "(0::nat) < length themes" by (simp add: themes_def)
  have b: "\<exists>k\<in>set (snd (themes ! 0)). contains (lower ''workday'') k"
    by (simp add: themes_def lower_workday)
  have c: "\<forall>j<(0::nat). \<forall>k\<in>set (snd (themes ! j)). \<not> contains (lower ''workday'') k"
    by simp
  have "extract_theme ''workday'' = fst (themes ! 0)"
    using extract_theme_first_match [OF a b c] by simp
  moreover have "fst (themes ! 0) = ''time''" "fst (themes ! 2) = ''work''"
    by (simp_all add: themes_def)
  moreover have "contains (lower ''workday'') ''work''" "contains (lower ''workday'') ''day''"
    by (simp_all add: lower_workday)
  ultimately show ?thesis by simp
qed

lemmas lower_simps = lower_def lower_char_def upper_letters_def lower_letters_def

lemma extract_theme_lower: "lower w = lower w' \<Longrightarrow> extract_theme w = extract_theme w'"
  by (simp add: extract_theme_def)

lemma theme_passport: "extract_theme ''passport'' = ''travel''"
  by (simp add: extract_theme_def themes_def lower_simps)

lemma theme_xylophone: "extract_theme ''xylophone'' = ''technology''"
  by (simp add: extract_theme_def themes_def lower_simps)

text \<open>
  Claim C5 as stated fails: keywords are matched as substrings, and "xylophone" holds the
  technology keyword "phone", so it is not classified as general.
\<close>

theorem extract_theme_examples_counterexample:
  "extract_theme ''xylophone'' = ''technology''
   \<and> \<not> (extract_theme ''teacher'' = ''school'' \<and> extract_theme ''passport'' = ''travel''
         \<and> extract_theme ''xylophone'' = ''general'')"
  by (simp add: theme_xylophone)

text \<open>
  Claim C5, amended. \<open>extract_theme\<close> is a function of the English term alone (it reads
  no random source and no state), and only of the term in lower case: two terms that agree
  up to case get the same theme. Under the keyword table, matched by substring, it maps
  "passport" to travel and "xylophone" to technology.
\<close>

theorem extract_theme_deterministic:
  assumes "lower w = lower w'"
  shows "extract_theme w = extract_theme w'
    \<and> extract_theme ''passport'' = ''travel''
    \<and> extract_theme ''xylophone'' = ''technology''"
proof -
  have "extract_theme w = extract_theme w'"
    using assms by (rule extract_theme_lower)
  then show ?thesis
    by (simp add: theme_passport theme_xylophone)
qed

theorem extract_theme_deterministic_witness:
  "lower ''Passport'' = lower ''passport'' \<and> extract_theme ''Passport'' = ''travel''"
proof -
  have eq: "lower ''Passport'' = lower ''passport''" by (simp add: lower_simps)
  from extract_theme_deterministic [OF eq] have "extract_theme ''Passport'' = ''travel''"
    by simp
  with eq show ?thesis by simp
qed

section \<open>The novelty classifier\<close>

lemma interesting_cat: "is_interesting_word ''cat''"
  by (simp add: is_interesting_word_def interesting_patterns_def common_words_def lower_simps)

lemma not_interesting_the: "\<not> is_interesting_word ''the''"
  by (simp add: is_interesting_word_def interesting_patterns_def common_words_def lower_simps)

text \<open>
  Claim C7 as stated fails: "cat" is short and holds no affix, so the specification's
  conjunction is false, yet the code returns true because "cat" is not a stop word.
\<close>

theorem is_interesting_word_counterexample:
  "is_interesting_word ''cat'' \<and> \<not> spec_is_interesting ''cat''"
  by (simp add: interesting_cat)
    (simp add: spec_is_interesting_def interesting_patterns_def common_words_def lower_simps)

text \<open>
  Claim C7, amended. \<open>is_interesting_word\<close> returns true if and only if the term is longer
  than 8 characters, or its lower-case form holds one of the affixes, or its lower-case
  form is not in the stop-word list: the three tests are alternatives, none is required
  together with another.
\<close>

theorem is_interesting_word_iff:
  "is_interesting_word word \<longleftrightarrow>
     (8 < length word
      \<or> list_ex (\<lambda>pattern. contains (lower word) pattern) interesting_patterns
      \<or> lower word \<notin> set common_words)"
  by (auto simp add: is_interesting_word_def Let_def)

theorem is_interesting_word_iff_witness:
  "lower ''the'' \<in> set common_words \<and> \<not> is_interesting_word ''the''
   \<and> lower ''cat'' \<notin> set common_words \<and> is_interesting_word ''cat''"
proof -
  have a: "lower ''the'' \<in> set common_words" by (simp add: common_words_def lower_simps)
  have b: "\<not> 8 < length ''the''" by simp
  have c: "\<not> list_ex (\<lambda>pattern. contains (lower ''the'') pattern) interesting_patterns"
    by (simp add: interesting_patterns_def lower_simps)
  have d: "lower ''cat'' \<notin> set common_words" by (simp add: common_words_def lower_simps)
  have "\<not> is_interesting_word ''the''"
    using is_interesting_word_iff [of "''the''"] a b c by simp
  moreover have "is_interesting_word ''cat''"
    using is_interesting_word_iff [of "''cat''"] d by simp
  ultimately show ?thesis using a d by simp
qed

section \<open>Blanks in the fill-blank sentences\<close>

lemma contains_Nil: "contains s []"
  by (cases s) simp_all

lemma py_replace_absent: "\<not> contains s old \<Longrightarrow> py_replace s old new = s"
  using contains_Nil [of s] by (auto simp: py_replace_def replace_from_absent)

lemma fill_blank_item_sentence:
  "fill_blank_item g v word = Inr (s, g') \<Longrightarrow>
     sentence s = py_replace (example_sentence word) (english_word word) ''_____''
     \<and> correct_word s = english_word word"
  by (auto simp: fill_blank_item_def split: sum.splits)

lemma hello_fill_blank:
  "fill_blank_item [0] (daily_life_fallback ''daily_life'') (hd (daily_life_fallback ''daily_life''))
   = Inr (\<lparr>sentence = ''Hello, how are you?'', correct_word = ''hello'',
           options = [''hello'', ''thank you'', ''different word'']\<rparr>, [])"
  by (simp add: fill_blank_item_def daily_life_fallback_def choice_def py_replace_def)

text \<open>
  Claim C6 as stated fails: for the built-in entry with the term "hello" and the sentence
  "Hello, how are you?" the generated sentence is the example sentence itself; "Hello" is
  still there and there is no blank.
\<close>

theorem fill_blank_hello_counterexample:
  "fill_blank_item [0] (daily_life_fallback ''daily_life'') (hd (daily_life_fallback ''daily_life''))
   = Inr (\<lparr>sentence = ''Hello, how are you?'', correct_word = ''hello'',
           options = [''hello'', ''thank you'', ''different word'']\<rparr>, [])
   \<and> english_word (hd (daily_life_fallback ''daily_life'')) = ''hello''
   \<and> example_sentence (hd (daily_life_fallback ''daily_life'')) = ''Hello, how are you?''
   \<and> \<not> contains ''Hello, how are you?'' ''_____''"
  by (simp add: hello_fill_blank) (simp add: daily_life_fallback_def)

text \<open>
  Claim C6, amended. The blank is put in by a case-sensitive literal substring match, so
  for an entry with the term "hello" and the sentence "Hello, how are you?" the generated
  sentence is the example sentence unchanged, with no blank. In general the sentence is
  the example sentence with every literal occurrence of the term replaced; an entry whose
  term does not occur in its sentence in exactly the same case keeps its sentence, and
  a lower-case occurrence as in "Say hello to her" becomes the blank.
\<close>

theorem fill_blank_case_sensitive:
  assumes "fill_blank_item g vocab word = Inr (s, g')"
  shows "sentence s = py_replace (example_sentence word) (english_word word) ''_____''
    \<and> (\<not> contains (example_sentence word) (english_word word)
         \<longrightarrow> sentence s = example_sentence word)
    \<and> (english_word word = ''hello'' \<and> example_sentence word = ''Hello, how are you?''
         \<longrightarrow> sentence s = ''Hello, how are you?'')
    \<and> (english_word word = ''hello'' \<and> example_sentence word = ''Say hello to her''
         \<longrightarrow> sentence s = ''Say _____ to her'')"
proof -
  have s: "sentence s = py_replace (example_sentence word) (english_word word) ''_____''"
    using fill_blank_item_sentence [OF assms] by simp
  moreover have "\<not> contains (example_sentence word) (english_word word)
      \<longrightarrow> sentence s = example_sentence word"
    using s by (simp add: py_replace_absent)
  moreover have "english_word word = ''hello'' \<and> example_sentence word = ''Hello, how are you?''
      \<longrightarrow> sentence s = ''Hello, how are you?''"
    using s by (simp add: py_replace_def)
  moreover have "english_word word = ''hello'' \<and> example_sentence word = ''Say hello to her''
      \<longrightarrow> sentence s = ''Say _____ to her''"
    using s by (simp add: py_replace_def)
  ultimately show ?thesis by blast
qed

theorem fill_blank_case_sensitive_witness:
  "english_word (hd (daily_life_fallback ''daily_life'')) = ''hello''
   \<and> example_sentence (hd (daily_life_fallback ''daily_life'')) = ''Hello, how are you?''
   \<and> \<not> contains ''Hello, how are you?'' ''hello''
   \<and> sentence \<lparr>sentence = ''Hello, how are you?'', correct_word = ''hello'',
                options = [''hello'', ''thank you'', ''different word'']\<rparr>
       = ''Hello, how are you?''"
proof -
  have a: "english_word (hd (daily_life_fallback ''daily_life'')) = ''hello''"
    and b: "example_sentence (hd (daily_life_fallback ''daily_life'')) = ''Hello, how are you?''"
    by (simp_all add: daily_life_fallback_def)
  have c: "\<not> contains ''Hello, how are you?'' ''hello''" by simp
  from fill_blank_case_sensitive [OF hello_fill_blank] a b
  have "sentence \<lparr>sentence = ''Hello, how are you?'', correct_word = ''hello'',
                options = [''hello'', ''thank you'', ''different word'']\<rparr>
       = ''Hello, how are you?''"
    by blast
  with a b c show ?thesis by blast
qed

section \<open>Generation failure and the built-in vocabulary\<close>

lemma generate_failure:
  assumes "generate_body json_loads response now cat = Inl e"
  shows "generate_vocabulary json_loads response now cat user_level limit
         = get_fallback_vocabulary cat user_level limit"
  using assms by (simp add: generate_vocabulary_def)

lemma generate_body_parse_failure:
  "response = None \<or> (\<exists>txt e. response = Some txt \<and> json_loads txt = Inl e)
   \<Longrightarrow> \<exists>e. generate_body json_loads response now cat = Inl e"
  by (auto simp: generate_body_def)

text \<open>The entries of the table for a category; those of daily_life for an unknown category.\<close>

lemma fallback_entries:
  "map (\<lambda>v. (item_id v, english_word v, complexity v, category v))
     (case map_of (fallback_vocab cat) cat of Some l \<Rightarrow> l | None \<Rightarrow> daily_life_fallback cat)
   = (if cat = ''work'' then [(''fallback_3'', ''meeting'', INTERMEDIATE, cat)]
      else if cat = ''education'' then [(''fallback_4'', ''student'', BASIC, cat)]
      else [(''fallback_1'', ''hello'', BASIC, cat), (''fallback_2'', ''thank you'', BASIC, cat)])"
  by (simp add: fallback_vocab_def daily_life_fallback_def)

lemma fallback_nonempty_iff:
  assumes "0 < limit"
  shows "get_fallback_vocabulary cat user_level limit \<noteq> [] \<longleftrightarrow>
     (user_level = None \<or> (user_level = Some BASIC \<and> cat \<noteq> ''work'')
      \<or> (user_level = Some INTERMEDIATE \<and> cat = ''work''))"
proof (cases user_level)
  case None
  with assms show ?thesis
    by (simp add: get_fallback_vocabulary_def fallback_vocab_def daily_life_fallback_def
        py_take_def)
next
  case (Some lvl)
  with assms show ?thesis
    by (cases lvl)
      (simp_all add: get_fallback_vocabulary_def fallback_vocab_def daily_life_fallback_def
        py_take_def)
qed

lemma work_basic_fallback_empty:
  "generate_vocabulary (\<lambda>t. Inl JSONDecodeError) (Some ''Error al generar respuesta: timeout'')
     (\<lambda>i. ''0'') ''work'' (Some BASIC) 15 = []"
  by (simp add: generate_vocabulary_def generate_body_def get_fallback_vocabulary_def
      fallback_vocab_def py_take_def)

text \<open>
  Claim C8 as stated fails: the fallback returned for the requested category and level
  is cut down to the entries of that level, and for the common category work and the
  level basic it has no entry at all.
\<close>

theorem generate_vocabulary_fallback_counterexample:
  "(\<lambda>t. Inl JSONDecodeError :: py_error + json) ''Error al generar respuesta: timeout''
     = Inl JSONDecodeError
   \<and> generate_vocabulary (\<lambda>t. Inl JSONDecodeError) (Some ''Error al generar respuesta: timeout'')
       (\<lambda>i. ''0'') ''work'' (Some BASIC) 15 = []"
  using work_basic_fallback_empty by simp

text \<open>
  Claim C8, amended. When the generator's response does not parse as JSON (the response
  is \<^verbatim>\<open>None\<close> or \<^verbatim>\<open>json.loads\<close> raises), or any other step of the generation
  raises, \<open>generate_vocabulary\<close> does not fail: it returns the entries of the built-in
  table for the requested category (those of daily_life when the category is not in the
  table), restricted to the requested level when one is given, and cut to the limit. The
  table has one entry for work (meeting, intermediate), one for education (student,
  basic) and two for daily_life (hello and thank you, basic): at least one per category.
  For a positive limit the returned list is non-empty exactly when no level is requested,
  or the level is basic and the category is not work, or the level is intermediate and
  the category is work; otherwise it is empty.
\<close>

theorem generate_vocabulary_fallback:
  assumes "response = None \<or> (\<exists>txt e. response = Some txt \<and> json_loads txt = Inl e)
           \<or> (\<exists>e. generate_body json_loads response now cat = Inl e)"
  shows "generate_vocabulary json_loads response now cat user_level limit
      = py_take limit
          (case user_level of
             None \<Rightarrow>
               (case map_of (fallback_vocab cat) cat of Some l \<Rightarrow> l
                | None \<Rightarrow> daily_life_fallback cat)
           | Some lvl \<Rightarrow>
               filter (\<lambda>v. complexity v = lvl)
                 (case map_of (fallback_vocab cat) cat of Some l \<Rightarrow> l
                  | None \<Rightarrow> daily_life_fallback cat))
    \<and> map (\<lambda>v. (item_id v, english_word v, complexity v, category v))
         (case map_of (fallback_vocab cat) cat of Some l \<Rightarrow> l | None \<Rightarrow> daily_life_fallback cat)
       = (if cat = ''work'' then [(''fallback_3'', ''meeting'', INTERMEDIATE, cat)]
          else if cat = ''education'' then [(''fallback_4'', ''student'', BASIC, cat)]
          else [(''fallback_1'', ''hello'', BASIC, cat),
                (''fallback_2'', ''thank you'', BASIC, cat)])
    \<and> (0 < limit \<longrightarrow>
         (generate_vocabulary json_loads response now cat user_level limit \<noteq> [] \<longleftrightarrow>
            (user_level = None \<or> (user_level = Some BASIC \<and> cat \<noteq> ''work'')
             \<or> (user_level = Some INTERMEDIATE \<and> cat = ''work''))))"
proof -
  from assms have "\<exists>e. generate_body json_loads response now cat = Inl e"
    using generate_body_parse_failure [of response json_loads now cat] by blast
  then obtain e where "generate_body json_loads response now cat = Inl e" ..
  then have g: "generate_vocabulary json_loads response now cat user_level limit
           = get_fallback_vocabulary cat user_level limit"
    by (rule generate_failure)
  have 1: "generate_vocabulary json_loads response now cat user_level limit
      = py_take limit
          (case user_level of
             None \<Rightarrow>
               (case map_of (fallback_vocab cat) cat of Some l \<Rightarrow> l
                | None \<Rightarrow> daily_life_fallback cat)
           | Some lvl \<Rightarrow>
               filter (\<lambda>v. complexity v = lvl)
                 (case map_of (fallback_vocab cat) cat of Some l \<Rightarrow> l
                  | None \<Rightarrow> daily_life_fallback cat))"
    unfolding g by (cases user_level) (simp_all add: get_fallback_vocabulary_def Let_def)
  have 3: "0 < limit \<longrightarrow>
         (generate_vocabulary json_loads response now cat user_level limit \<noteq> [] \<longleftrightarrow>
            (user_level = None \<or> (user_level = Some BASIC \<and> cat \<noteq> ''work'')
             \<or> (user_level = Some INTERMEDIATE \<and> cat = ''work'')))"
    unfolding g using fallback_nonempty_iff [of limit cat user_level] by blast
  show ?thesis by (intro conjI) (rule 1, rule fallback_entries, rule 3)
qed

theorem generate_vocabulary_fallback_witness:
  "(\<lambda>t. Inl JSONDecodeError :: py_error + json) ''Error al generar respuesta: timeout''
     = Inl JSONDecodeError
   \<and> map english_word
       (generate_vocabulary (\<lambda>t. Inl JSONDecodeError) (Some ''Error al generar respuesta: timeout'')
          (\<lambda>i. ''0'') ''work'' (Some INTERMEDIATE) 15) = [''meeting'']
   \<and> map english_word
       (generate_vocabulary (\<lambda>t. Inl JSONDecodeError) (Some ''Error al generar respuesta: timeout'')
          (\<lambda>i. ''0'') ''sports'' None 15) = [''hello'', ''thank you'']"
proof -
  have h: "Some ''Error al generar respuesta: timeout'' = None
      \<or> (\<exists>txt e. Some ''Error al generar respuesta: timeout'' = Some txt
            \<and> (\<lambda>t. Inl JSONDecodeError :: py_error + json) txt = Inl e)
      \<or> (\<exists>e. generate_body (\<lambda>t. Inl JSONDecodeError) (Some ''Error al generar respuesta: timeout'')
            (\<lambda>i. ''0'') cat = Inl e)" for cat
    by simp
  from generate_vocabulary_fallback [OF h, of "''work''" "Some INTERMEDIATE" 15]
  have "generate_vocabulary (\<lambda>t. Inl JSONDecodeError) (Some ''Error al generar respuesta: timeout'')
          (\<lambda>i. ''0'') ''work'' (Some INTERMEDIATE) 15
        = py_take 15 (filter (\<lambda>v. complexity v = INTERMEDIATE)
            (case map_of (fallback_vocab ''work'') ''work'' of Some l \<Rightarrow> l
             | None \<Rightarrow> daily_life_fallback ''work''))"
    by simp
  then have w: "map english_word
       (generate_vocabulary (\<lambda>t. Inl JSONDecodeError) (Some ''Error al generar respuesta: timeout'')
          (\<lambda>i. ''0'') ''work'' (Some INTERMEDIATE) 15) = [''meeting'']"
    by (simp add: fallback_vocab_def py_take_def)
  from generate_vocabulary_fallback [OF h, of "''sports''" None 15]
  have "generate_vocabulary (\<lambda>t. Inl JSONDecodeError) (Some ''Error al generar respuesta: timeout'')
          (\<lambda>i. ''0'') ''sports'' None 15
        = py_take 15 (case map_of (fallback_vocab ''sports'') ''sports'' of Some l \<Rightarrow> l
             | None \<Rightarrow> daily_life_fallback ''sports'')"
    by simp
  then have s: "map english_word
       (generate_vocabulary (\<lambda>t. Inl JSONDecodeError) (Some ''Error al generar respuesta: timeout'')
          (\<lambda>i. ''0'') ''sports'' None 15) = [''hello'', ''thank you'']"
    by (simp add: fallback_vocab_def daily_life_fallback_def py_take_def)
  from w s show ?thesis by simp
qed

section \<open>The distractor of the fill-blank sentences\<close>

lemma choice_ok:
  assumes "xs \<noteq> []"
  shows "\<exists>x g'. choice g xs = Inr (x, g') \<and> x \<in> set xs"
proof -
  obtain r g' where r: "next_rand g = (r, g')" by (cases "next_rand g")
  have "r mod length xs < length xs" using assms by simp
  then have "xs ! (r mod length xs) \<in> set xs" by (rule nth_mem)
  with r assms show ?thesis by (simp add: choice_def)
qed

lemma fill_blank_items_ok:
  "\<forall>w\<in>set ws. \<exists>x\<in>set v. x \<noteq> w \<Longrightarrow>
     \<exists>ss g'. fill_blank_items g v ws = Inr (ss, g') \<and> length ss = length ws"
proof (induction ws arbitrary: g)
  case Nil
  then show ?case by simp
next
  case (Cons w ws)
  from Cons.prems obtain x where "x \<in> set v" "x \<noteq> w" by auto
  then have ne: "filter (\<lambda>y. y \<noteq> w) v \<noteq> []"
    by (auto simp: filter_empty_conv)
  then have "map english_word (filter (\<lambda>y. y \<noteq> w) v) \<noteq> []" by simp
  from choice_ok [OF this, of g] obtain d g1 where
    "choice g (map english_word (filter (\<lambda>y. y \<noteq> w) v)) = Inr (d, g1)" by blast
  then obtain s where s: "fill_blank_item g v w = Inr (s, g1)"
    by (simp add: fill_blank_item_def)
  from Cons.prems have "\<forall>w\<in>set ws. \<exists>x\<in>set v. x \<noteq> w" by simp
  from Cons.IH [OF this, of g1] obtain ss g2 where
    "fill_blank_items g1 v ws = Inr (ss, g2)" "length ss = length ws" by blast
  with s show ?case by simp
qed

lemma fill_blank_items_fail:
  assumes "ws \<noteq> []" and "\<forall>x\<in>set v. x = hd ws"
  shows "fill_blank_items g v ws = Inl IndexError"
proof (cases ws)
  case Nil
  with assms(1) show ?thesis by simp
next
  case (Cons w ws')
  with assms(2) have "filter (\<lambda>y. y \<noteq> w) v = []" by (auto simp: filter_empty_conv)
  then have "fill_blank_item g v w = Inl IndexError"
    by (simp add: fill_blank_item_def choice_def)
  with Cons show ?thesis by simp
qed

text \<open>Entries that make the fill-blank construction complete: fewer than three, or two unequal ones.\<close>

lemma basic_exercises_ok:
  assumes "length v < 3 \<or> (\<exists>a\<in>set v. \<exists>b\<in>set v. a \<noteq> b)"
  shows "\<exists>ss g'. create_basic_exercises g v =
           Inr ((if 4 \<le> length v then [matching_exercise v] else [])
                @ (if 3 \<le> length v then [fill_blank_exercise ss] else []), g')
         \<and> (length v < 3 \<longrightarrow> g' = g)"
proof (cases "3 \<le> length v")
  case False
  then show ?thesis by (simp add: create_basic_exercises_def)
next
  case True
  with assms obtain a b where ab: "a \<in> set v" "b \<in> set v" "a \<noteq> b" by auto
  have "\<forall>w\<in>set (take 3 v). \<exists>x\<in>set v. x \<noteq> w"
  proof
    fix w assume "w \<in> set (take 3 v)"
    show "\<exists>x\<in>set v. x \<noteq> w"
    proof (cases "a = w")
      case True
      with ab have "b \<noteq> w" by simp
      with ab(2) show ?thesis by (rule_tac x = b in bexI)
    next
      case False
      with ab(1) show ?thesis by (rule_tac x = a in bexI)
    qed
  qed
  from fill_blank_items_ok [OF this, of g] obtain ss g' where
    "fill_blank_items g v (take 3 v) = Inr (ss, g')" by blast
  with True show ?thesis by (auto simp add: create_basic_exercises_def)
qed

lemma basic_exercises_fail:
  assumes "3 \<le> length v" and "\<forall>a\<in>set v. \<forall>b\<in>set v. a = b"
  shows "create_basic_exercises g v = Inl IndexError"
proof -
  from assms(1) have ne: "take 3 v \<noteq> []" by auto
  then have "hd (take 3 v) \<in> set (take 3 v)" by (rule hd_in_set)
  then have "hd (take 3 v) \<in> set v" by (rule in_set_takeD)
  with assms(2) have "\<forall>x\<in>set v. x = hd (take 3 v)" by blast
  from fill_blank_items_fail [OF ne this]
  have "fill_blank_items g v (take 3 v) = Inl IndexError" .
  with assms(1) show ?thesis by (simp add: create_basic_exercises_def)
qed

text \<open>
  Claim C9. For a vocabulary list of at least three entries, two of which differ, the
  fill-blank construction of \<open>create_basic_exercises\<close> completes: every
  \<^verbatim>\<open>random.choice\<close> draws from a non-empty list. When all entries of the list are equal
  the construction raises IndexError and returns no exercises.
\<close>

theorem fill_blank_distractor_safety:
  assumes "3 \<le> length v"
  shows "((\<exists>a\<in>set v. \<exists>b\<in>set v. a \<noteq> b) \<longrightarrow> (\<exists>exs g'. create_basic_exercises g v = Inr (exs, g')))
    \<and> ((\<forall>a\<in>set v. \<forall>b\<in>set v. a = b) \<longrightarrow> create_basic_exercises g v = Inl IndexError)"
proof (intro conjI impI)
  assume "\<exists>a\<in>set v. \<exists>b\<in>set v. a \<noteq> b"
  then have "length v < 3 \<or> (\<exists>a\<in>set v. \<exists>b\<in>set v. a \<noteq> b)" by simp
  from basic_exercises_ok [OF this, of g]
  show "\<exists>exs g'. create_basic_exercises g v = Inr (exs, g')" by blast
next
  assume "\<forall>a\<in>set v. \<forall>b\<in>set v. a = b"
  with assms show "create_basic_exercises g v = Inl IndexError"
    by (rule basic_exercises_fail)
qed

theorem fill_blank_distractor_safety_witness:
  "(\<exists>exs g'. create_basic_exercises [5, 7]
        [example_entry ''1'' ''hello'' BASIC, example_entry ''2'' ''water'' BASIC,
         example_entry ''1'' ''hello'' BASIC] = Inr (exs, g'))
   \<and> create_basic_exercises [5, 7] (replicate 3 (example_entry ''1'' ''hello'' BASIC))
       = Inl IndexError"
proof -
  let ?v = "[example_entry ''1'' ''hello'' BASIC, example_entry ''2'' ''water'' BASIC,
         example_entry ''1'' ''hello'' BASIC]"
  let ?u = "replicate 3 (example_entry ''1'' ''hello'' BASIC)"
  have l1: "3 \<le> length ?v" by simp
  have "example_entry ''1'' ''hello'' BASIC \<noteq> example_entry ''2'' ''water'' BASIC"
    by (simp add: example_entry_def)
  then have d1: "\<exists>a\<in>set ?v. \<exists>b\<in>set ?v. a \<noteq> b" by auto
  have l2: "3 \<le> length ?u" by simp
  have d2: "\<forall>a\<in>set ?u. \<forall>b\<in>set ?u. a = b" by simp
  from fill_blank_distractor_safety [OF l1, of "[5, 7]"] d1
  have "\<exists>exs g'. create_basic_exercises [5, 7] ?v = Inr (exs, g')" by blast
  moreover from fill_blank_distractor_safety [OF l2, of "[5, 7]"] d2
  have "create_basic_exercises [5, 7] ?u = Inl IndexError" by blast
  ultimately show ?thesis by blast
qed

section \<open>Exercise tiers\<close>

lemmas exercise_defs = matching_exercise_def fill_blank_exercise_def
  sentence_creation_exercise_def synonyms_exercise_def debate_exercise_def
  reverse_translation_exercise_def

lemma exercise_tiers:
  assumes "length v < 3 \<or> (\<exists>a\<in>set v. \<exists>b\<in>set v. a \<noteq> b)"
  shows "\<exists>ss g'.
     create_basic_exercises g v =
       Inr ((if 4 \<le> length v then [matching_exercise v] else [])
            @ (if 3 \<le> length v then [fill_blank_exercise ss] else []), g')
   \<and> create_intermediate_exercises g v =
       Inr (((if 4 \<le> length v then [matching_exercise v] else [])
            @ (if 3 \<le> length v then [fill_blank_exercise ss] else []))
           @ ((if 5 \<le> length v then [sentence_creation_exercise v] else [])
            @ (if 4 \<le> length v then [synonyms_exercise v] else [])), g')
   \<and> create_advanced_exercises g v =
       Inr (((if 4 \<le> length v then [matching_exercise v] else [])
            @ (if 3 \<le> length v then [fill_blank_exercise ss] else []))
           @ ((if 5 \<le> length v then [sentence_creation_exercise v] else [])
            @ (if 4 \<le> length v then [synonyms_exercise v] else []))
           @ ((if 3 \<le> length v then [debate_exercise v] else [])
            @ (if 4 \<le> length v then [reverse_translation_exercise v] else [])), g')"
proof -
  from basic_exercises_ok [OF assms, of g] obtain ss g' where
    b: "create_basic_exercises g v =
       Inr ((if 4 \<le> length v then [matching_exercise v] else [])
            @ (if 3 \<le> length v then [fill_blank_exercise ss] else []), g')"
    by blast
  have i: "create_intermediate_exercises g v =
       Inr (((if 4 \<le> length v then [matching_exercise v] else [])
            @ (if 3 \<le> length v then [fill_blank_exercise ss] else []))
           @ ((if 5 \<le> length v then [sentence_creation_exercise v] else [])
            @ (if 4 \<le> length v then [synonyms_exercise v] else [])), g')"
    unfolding create_intermediate_exercises_def b by simp
  have a: "create_advanced_exercises g v =
       Inr (((if 4 \<le> length v then [matching_exercise v] else [])
            @ (if 3 \<le> length v then [fill_blank_exercise ss] else []))
           @ ((if 5 \<le> length v then [sentence_creation_exercise v] else [])
            @ (if 4 \<le> length v then [synonyms_exercise v] else []))
           @ ((if 3 \<le> length v then [debate_exercise v] else [])
            @ (if 4 \<le> length v then [reverse_translation_exercise v] else [])), g')"
    unfolding create_advanced_exercises_def i by simp
  from b i a show ?thesis by blast
qed

lemma equal_entries_raise:
  assumes "3 \<le> length v" and "\<forall>a\<in>set v. \<forall>b\<in>set v. a = b"
  shows "create_exercises g lvl v = Inl IndexError"
proof -
  have b: "create_basic_exercises g v = Inl IndexError"
    using assms by (rule basic_exercises_fail)
  then have i: "create_intermediate_exercises g v = Inl IndexError"
    unfolding create_intermediate_exercises_def by simp
  then have "create_advanced_exercises g v = Inl IndexError"
    unfolding create_advanced_exercises_def by simp
  with b i show ?thesis by (cases lvl) simp_all
qed

text \<open>
  Claim C2 is not met by the code. Six entries that are all equal (the same row of the
  sheet six times) are a vocabulary list of exactly 6 entries, and for every random source
  the advanced builder raises IndexError on it instead of returning the six exercise
  types: the distractor of the first fill-blank sentence is drawn by
  \<^verbatim>\<open>random.choice\<close> from the words of the entries that differ from the current one,
  and there is none. The code has no guard for this case.
\<close>

theorem exercise_tiers_equal_entries:
  "length (replicate 6 (example_entry ''1'' ''hello'' BASIC)) = 6
   \<and> create_exercises g ADVANCED (replicate 6 (example_entry ''1'' ''hello'' BASIC))
       = Inl IndexError"
proof -
  have "create_exercises g ADVANCED (replicate 6 (example_entry ''1'' ''hello'' BASIC))
       = Inl IndexError"
    by (rule equal_entries_raise) simp_all
  then show ?thesis by simp
qed

text \<open>
  On every list on which the fill-blank construction completes (fewer than three entries,
  or two entries that differ) and for the same random source, the three builders return,
  and the exercise list of a higher level extends the list of the level below:
  intermediate is basic followed by its additions, advanced is intermediate followed by
  its additions. Each exercise type appears exactly when its threshold is met (matching 4,
  fill_blank 3, sentence_creation 5, synonyms 4, debate 3, reverse_translation 4) and is
  left out without an error otherwise. With exactly 2 entries the basic list is empty;
  with exactly 6 entries the advanced list has exactly the types matching, fill_blank,
  sentence_creation, synonyms, debate, reverse_translation.
\<close>

theorem exercise_tiers_cumulative:
  assumes "length v < 3 \<or> (\<exists>a\<in>set v. \<exists>b\<in>set v. a \<noteq> b)"
  shows "\<exists>bs ins ads g'.
     create_exercises g BASIC v = Inr (bs, g')
   \<and> create_exercises g INTERMEDIATE v = Inr (bs @ ins, g')
   \<and> create_exercises g ADVANCED v = Inr (bs @ ins @ ads, g')
   \<and> map ex_type bs = (if 4 \<le> length v then [''matching''] else [])
                       @ (if 3 \<le> length v then [''fill_blank''] else [])
   \<and> map ex_type ins = (if 5 \<le> length v then [''sentence_creation''] else [])
                       @ (if 4 \<le> length v then [''synonyms''] else [])
   \<and> map ex_type ads = (if 3 \<le> length v then [''debate''] else [])
                       @ (if 4 \<le> length v then [''reverse_translation''] else [])
   \<and> (length v = 2 \<longrightarrow> bs = [])
   \<and> (length v = 6 \<longrightarrow> map ex_type (bs @ ins @ ads) =
         [''matching'', ''fill_blank'', ''sentence_creation'', ''synonyms'', ''debate'',
          ''reverse_translation''])"
proof -
  from exercise_tiers [OF assms, of g] obtain ss g' where
    b: "create_basic_exercises g v =
       Inr ((if 4 \<le> length v then [matching_exercise v] else [])
            @ (if 3 \<le> length v then [fill_blank_exercise ss] else []), g')"
    and i: "create_intermediate_exercises g v =
       Inr (((if 4 \<le> length v then [matching_exercise v] else [])
            @ (if 3 \<le> length v then [fill_blank_exercise ss] else []))
           @ ((if 5 \<le> length v then [sentence_creation_exercise v] else [])
            @ (if 4 \<le> length v then [synonyms_exercise v] else [])), g')"
    and a: "create_advanced_exercises g v =
       Inr (((if 4 \<le> length v then [matching_exercise v] else [])
            @ (if 3 \<le> length v then [fill_blank_exercise ss] else []))
           @ ((if 5 \<le> length v then [sentence_creation_exercise v] else [])
            @ (if 4 \<le> length v then [synonyms_exercise v] else []))
           @ ((if 3 \<le> length v then [debate_exercise v] else [])
            @ (if 4 \<le> length v then [reverse_translation_exercise v] else [])), g')"
    by blast
  define bs where "bs = (if 4 \<le> length v then [matching_exercise v] else [])
            @ (if 3 \<le> length v then [fill_blank_exercise ss] else [])"
  define ins where "ins = (if 5 \<le> length v then [sentence_creation_exercise v] else [])
            @ (if 4 \<le> length v then [synonyms_exercise v] else [])"
  define ads where "ads = (if 3 \<le> length v then [debate_exercise v] else [])
            @ (if 4 \<le> length v then [reverse_translation_exercise v] else [])"
  have 1: "create_exercises g BASIC v = Inr (bs, g')" using b by (simp add: bs_def)
  have 2: "create_exercises g INTERMEDIATE v = Inr (bs @ ins, g')"
    using i by (simp add: bs_def ins_def)
  have 3: "create_exercises g ADVANCED v = Inr (bs @ ins @ ads, g')"
    using a by (simp add: bs_def ins_def ads_def)
  have 4: "map ex_type bs = (if 4 \<le> length v then [''matching''] else [])
                       @ (if 3 \<le> length v then [''fill_blank''] else [])"
    by (simp add: bs_def exercise_defs)
  have 5: "map ex_type ins = (if 5 \<le> length v then [''sentence_creation''] else [])
                       @ (if 4 \<le> length v then [''synonyms''] else [])"
    by (simp add: ins_def exercise_defs)
  have 6: "map ex_type ads = (if 3 \<le> length v then [''debate''] else [])
                       @ (if 4 \<le> length v then [''reverse_translation''] else [])"
    by (simp add: ads_def exercise_defs)
  have 7: "length v = 2 \<longrightarrow> bs = []" by (simp add: bs_def)
  have 8: "length v = 6 \<longrightarrow> map ex_type (bs @ ins @ ads) =
         [''matching'', ''fill_blank'', ''sentence_creation'', ''synonyms'', ''debate'',
          ''reverse_translation'']"
    using 4 5 6 by simp
  show ?thesis
    by (intro exI conjI) (rule 1, rule 2, rule 3, rule 4, rule 5, rule 6, rule 7, rule 8)
qed

theorem exercise_tiers_cumulative_witness:
  "(\<exists>exs g'. create_exercises [1, 2, 3] ADVANCED
       [example_entry ''1'' ''hello'' BASIC, example_entry ''2'' ''water'' BASIC,
        example_entry ''3'' ''door'' BASIC, example_entry ''4'' ''meeting'' INTERMEDIATE,
        example_entry ''5'' ''passport'' INTERMEDIATE, example_entry ''6'' ''software'' ADVANCED]
       = Inr (exs, g')
     \<and> map ex_type exs = [''matching'', ''fill_blank'', ''sentence_creation'', ''synonyms'',
          ''debate'', ''reverse_translation''])
   \<and> (\<exists>g'. create_exercises [1, 2, 3] BASIC
       [example_entry ''1'' ''hello'' BASIC, example_entry ''2'' ''water'' BASIC] = Inr ([], g'))"
proof -
  let ?v = "[example_entry ''1'' ''hello'' BASIC, example_entry ''2'' ''water'' BASIC,
        example_entry ''3'' ''door'' BASIC, example_entry ''4'' ''meeting'' INTERMEDIATE,
        example_entry ''5'' ''passport'' INTERMEDIATE, example_entry ''6'' ''software'' ADVANCED]"
  let ?u = "[example_entry ''1'' ''hello'' BASIC, example_entry ''2'' ''water'' BASIC]"
  have "example_entry ''1'' ''hello'' BASIC \<noteq> example_entry ''2'' ''water'' BASIC"
    by (simp add: example_entry_def)
  then have "\<exists>a\<in>set ?v. \<exists>b\<in>set ?v. a \<noteq> b" by auto
  then have hv: "length ?v < 3 \<or> (\<exists>a\<in>set ?v. \<exists>b\<in>set ?v. a \<noteq> b)" by blast
  have hu: "length ?u < 3 \<or> (\<exists>a\<in>set ?u. \<exists>b\<in>set ?u. a \<noteq> b)" by simp
  have l6: "length ?v = 6" and l2: "length ?u = 2" by simp_all
  from exercise_tiers_cumulative [OF hv, of "[1, 2, 3]"] obtain bs ins ads g1 where
    a: "create_exercises [1, 2, 3] ADVANCED ?v = Inr (bs @ ins @ ads, g1)"
    and t: "length ?v = 6 \<longrightarrow> map ex_type (bs @ ins @ ads) =
         [''matching'', ''fill_blank'', ''sentence_creation'', ''synonyms'', ''debate'',
          ''reverse_translation'']"
    by (elim exE conjE) (rule that, assumption+)
  from t l6 have "map ex_type (bs @ ins @ ads) =
         [''matching'', ''fill_blank'', ''sentence_creation'', ''synonyms'', ''debate'',
          ''reverse_translation'']" by (rule mp)
  with a have first: "\<exists>exs g'. create_exercises [1, 2, 3] ADVANCED ?v = Inr (exs, g')
     \<and> map ex_type exs = [''matching'', ''fill_blank'', ''sentence_creation'', ''synonyms'',
          ''debate'', ''reverse_translation'']"
    by (intro exI conjI)
  from exercise_tiers_cumulative [OF hu, of "[1, 2, 3]"] obtain bs' g2 where
    b: "create_exercises [1, 2, 3] BASIC ?u = Inr (bs', g2)"
    and e: "length ?u = 2 \<longrightarrow> bs' = []"
    by (elim exE conjE) (rule that, assumption+)
  from e l2 have "bs' = []" by (rule mp)
  with b have "\<exists>g'. create_exercises [1, 2, 3] BASIC ?u = Inr ([], g')" by (intro exI) simp
  with first show ?thesis by (rule conjI)
qed

section \<open>Grouping\<close>

lemma group_insert_keys:
  "map fst (group_insert k x gs) = (if k \<in> fst ` set gs then map fst gs else map fst gs @ [k])"
  by (induction gs) (auto split: if_splits)

lemma group_insert_lookup:
  "map_of (group_insert k x gs) k' =
     (if k' = k then Some ((case map_of gs k of Some xs \<Rightarrow> xs | None \<Rightarrow> []) @ [x])
      else map_of gs k')"
  by (induction gs) auto

lemma group_by_snoc:
  "group_by f (xs @ [x]) = group_insert (f x) x (group_by f xs)"
  by (simp add: group_by_def)

lemma group_by_Nil: "group_by f [] = []"
  by (simp add: group_by_def)

text \<open>The keys of the groups are the keys of the entries, in the order of first appearance.\<close>

lemma group_by_keys: "map fst (group_by f xs) = rev (remdups (rev (map f xs)))"
proof (induction xs rule: rev_induct)
  case Nil
  then show ?case by (simp add: group_by_Nil)
next
  case (snoc x xs)
  have "set (map fst (group_by f xs)) = f ` set xs"
    by (simp only: snoc.IH) (simp add: image_image)
  then have "(f x \<in> fst ` set (group_by f xs)) = (f x \<in> f ` set xs)" by simp
  then show ?case
    by (simp add: group_by_snoc group_insert_keys snoc.IH)
qed

lemma group_by_distinct: "distinct (map fst (group_by f xs))"
  by (simp add: group_by_keys)

lemma group_by_lookup:
  "map_of (group_by f xs) k = (if k \<in> f ` set xs then Some (filter (\<lambda>x. f x = k) xs) else None)"
proof (induction xs arbitrary: k rule: rev_induct)
  case Nil
  then show ?case by (simp add: group_by_Nil)
next
  case (snoc x xs)
  show ?case
    by (auto simp add: group_by_snoc group_insert_lookup snoc.IH filter_empty_conv
        empty_filter_conv image_iff)
qed

lemma group_by_member:
  assumes "(k, ws) \<in> set (group_by f xs)"
  shows "ws = filter (\<lambda>x. f x = k) xs \<and> ws \<noteq> [] \<and> k \<in> f ` set xs"
proof -
  from assms have "map_of (group_by f xs) k = Some ws"
    by (simp add: group_by_distinct)
  then have k: "k \<in> f ` set xs" and ws: "ws = filter (\<lambda>x. f x = k) xs"
    by (auto simp: group_by_lookup split: if_splits)
  from k obtain x where "x \<in> set xs" "f x = k" by auto
  then have "filter (\<lambda>x. f x = k) xs \<noteq> []" by (auto simp: filter_empty_conv)
  with k ws show ?thesis by simp
qed

section \<open>Lesson assembly\<close>

lemma create_exercises_ok:
  assumes "length v < 3 \<or> (\<exists>a\<in>set v. \<exists>b\<in>set v. a \<noteq> b)"
  shows "\<exists>exs g'. create_exercises g lvl v = Inr (exs, g')"
proof -
  from exercise_tiers [OF assms, of g] obtain b i a g' where
    "create_basic_exercises g v = Inr (b, g')"
    "create_intermediate_exercises g v = Inr (i, g')"
    "create_advanced_exercises g v = Inr (a, g')"
    by blast
  then show ?thesis by (cases lvl) simp_all
qed

lemma lesson_error_iff:
  "(\<exists>msg g'. create_vocabulary_lesson g v lvl = Inr (ErrorResult msg, g')) \<longleftrightarrow> v = []"
  by (auto simp: create_vocabulary_lesson_def Let_def split: sum.splits)

lemma lesson_fields:
  assumes "v \<noteq> []" and "create_exercises g lvl v = Inr (exs, g')"
  shows "\<exists>l. create_vocabulary_lesson g v lvl = Inr (LessonResult l, g')
    \<and> estimated_time l = str_nat (length v * 2) @ '' minutos''
    \<and> exercises l = exs
    \<and> vocabulary l = v
    \<and> thematic_groups l =
        map (\<lambda>(t, ws). \<lparr>theme = t, words = map english_word (take 3 ws), word_total = length ws\<rparr>)
          (take 3 (group_by (\<lambda>word. extract_theme (english_word word)) v))"
  using assms by (simp add: create_vocabulary_lesson_def Let_def)

lemma thematic_groups_themes:
  "map theme (map (\<lambda>(t, ws). \<lparr>theme = t, words = map english_word (take 3 ws), word_total = length ws\<rparr>)
          (take 3 (group_by f v)))
   = take 3 (rev (remdups (rev (map f v))))"
proof -
  have "map theme (map (\<lambda>(t, ws). \<lparr>theme = t, words = map english_word (take 3 ws), word_total = length ws\<rparr>)
          (take 3 (group_by f v))) = map fst (take 3 (group_by f v))"
    by (simp add: case_prod_beta comp_def)
  also have "\<dots> = take 3 (map fst (group_by f v))" by (simp add: take_map)
  finally show ?thesis by (simp add: group_by_keys)
qed

lemma thematic_groups_member:
  assumes "tg \<in> set (map (\<lambda>(t, ws). \<lparr>theme = t, words = map english_word (take 3 ws), word_total = length ws\<rparr>)
          (take 3 (group_by f v)))"
  shows "words tg = map english_word (take 3 (filter (\<lambda>w. f w = theme tg) v))
    \<and> length (words tg) \<le> 3
    \<and> word_total tg = length (filter (\<lambda>w. f w = theme tg) v)
    \<and> 0 < word_total tg"
proof -
  from assms obtain t ws where m: "(t, ws) \<in> set (take 3 (group_by f v))"
    and tg: "tg = \<lparr>theme = t, words = map english_word (take 3 ws), word_total = length ws\<rparr>"
    by auto
  from m have "(t, ws) \<in> set (group_by f v)" by (rule in_set_takeD)
  from group_by_member [OF this] have "ws = filter (\<lambda>x. f x = t) v" and "ws \<noteq> []"
    by blast+
  with tg show ?thesis by simp
qed

lemma lesson_equal_entries_raise:
  assumes "3 \<le> length v" and "\<forall>a\<in>set v. \<forall>b\<in>set v. a = b"
  shows "create_vocabulary_lesson g v lvl = Inl IndexError"
proof -
  have "create_exercises g lvl v = Inl IndexError"
    using assms by (rule equal_entries_raise)
  moreover have "v \<noteq> []" using assms(1) by auto
  ultimately show ?thesis
    unfolding create_vocabulary_lesson_def Let_def by (simp only: if_False sum.case)
qed

text \<open>
  Claim C3 is not met by the code. Three entries that are all equal (the same row of the
  sheet three times) are a non-empty vocabulary, and for every random source and every
  level \<open>create_vocabulary_lesson\<close> raises IndexError on it: it returns neither a lesson
  nor the error-tagged result. The exception comes from the unguarded
  \<^verbatim>\<open>random.choice\<close> of the fill-blank construction, which the function calls outside
  of any \<^verbatim>\<open>try\<close>.
\<close>

theorem lesson_assembly_equal_entries:
  "replicate 3 (example_entry ''1'' ''hello'' BASIC) \<noteq> []
   \<and> create_vocabulary_lesson g (replicate 3 (example_entry ''1'' ''hello'' BASIC)) lvl
       = Inl IndexError"
proof -
  have "create_vocabulary_lesson g (replicate 3 (example_entry ''1'' ''hello'' BASIC)) lvl
       = Inl IndexError"
    by (rule lesson_equal_entries_raise) simp_all
  then show ?thesis by simp
qed

text \<open>
  \<open>create_vocabulary_lesson\<close> returns the error-tagged result (not an exception) if and
  only if the vocabulary is empty. For every non-empty vocabulary of length N on which the
  fill-blank construction completes (fewer than three entries, or two entries that differ)
  it returns a lesson whose estimated time is the decimal text of N * 2 followed by the
  fixed unit " minutos", and whose thematic groups are those of the first three distinct
  themes in the order of first appearance; each group carries the first three words of
  its theme at most, and the number of all entries of its theme.
\<close>

theorem lesson_assembly:
  "((\<exists>msg g'. create_vocabulary_lesson g v lvl = Inr (ErrorResult msg, g')) \<longleftrightarrow> v = [])
   \<and> (v \<noteq> [] \<and> (length v < 3 \<or> (\<exists>a\<in>set v. \<exists>b\<in>set v. a \<noteq> b)) \<longrightarrow>
        (\<exists>l g'. create_vocabulary_lesson g v lvl = Inr (LessonResult l, g')
           \<and> estimated_time l = str_nat (length v * 2) @ '' minutos''
           \<and> length (thematic_groups l) \<le> 3
           \<and> map theme (thematic_groups l)
               = take 3 (rev (remdups (rev (map (\<lambda>w. extract_theme (english_word w)) v))))
           \<and> distinct (map theme (thematic_groups l))
           \<and> (\<forall>tg\<in>set (thematic_groups l).
                 words tg = map english_word
                   (take 3 (filter (\<lambda>w. extract_theme (english_word w) = theme tg) v))
                 \<and> length (words tg) \<le> 3
                 \<and> word_total tg
                     = length (filter (\<lambda>w. extract_theme (english_word w) = theme tg) v))))"
proof (intro conjI impI)
  show "(\<exists>msg g'. create_vocabulary_lesson g v lvl = Inr (ErrorResult msg, g')) \<longleftrightarrow> v = []"
    by (rule lesson_error_iff)
next
  assume a: "v \<noteq> [] \<and> (length v < 3 \<or> (\<exists>a\<in>set v. \<exists>b\<in>set v. a \<noteq> b))"
  then have ne: "v \<noteq> []" and nd: "length v < 3 \<or> (\<exists>a\<in>set v. \<exists>b\<in>set v. a \<noteq> b)"
    by simp_all
  from create_exercises_ok [OF nd, of g lvl] obtain exs g' where
    "create_exercises g lvl v = Inr (exs, g')" by blast
  from lesson_fields [OF ne this] obtain l where
    l: "create_vocabulary_lesson g v lvl = Inr (LessonResult l, g')"
    and et: "estimated_time l = str_nat (length v * 2) @ '' minutos''"
    and tg: "thematic_groups l =
        map (\<lambda>(t, ws). \<lparr>theme = t, words = map english_word (take 3 ws), word_total = length ws\<rparr>)
          (take 3 (group_by (\<lambda>word. extract_theme (english_word word)) v))"
    by blast
  have len: "length (thematic_groups l) \<le> 3" by (simp add: tg)
  have th: "map theme (thematic_groups l)
               = take 3 (rev (remdups (rev (map (\<lambda>w. extract_theme (english_word w)) v))))"
    unfolding tg by (rule thematic_groups_themes)
  have di: "distinct (map theme (thematic_groups l))"
    unfolding th by (rule distinct_take) simp
  have me: "\<forall>tg\<in>set (thematic_groups l).
                 words tg = map english_word
                   (take 3 (filter (\<lambda>w. extract_theme (english_word w) = theme tg) v))
                 \<and> length (words tg) \<le> 3
                 \<and> word_total tg
                     = length (filter (\<lambda>w. extract_theme (english_word w) = theme tg) v)"
  proof
    fix x assume "x \<in> set (thematic_groups l)"
    then have "x \<in> set (map (\<lambda>(t, ws). \<lparr>theme = t, words = map english_word (take 3 ws),
        word_total = length ws\<rparr>)
          (take 3 (group_by (\<lambda>word. extract_theme (english_word word)) v)))"
      by (simp only: tg)
    from thematic_groups_member [OF this]
    show "words x = map english_word
                   (take 3 (filter (\<lambda>w. extract_theme (english_word w) = theme x) v))
                 \<and> length (words x) \<le> 3
                 \<and> word_total x
                     = length (filter (\<lambda>w. extract_theme (english_word w) = theme x) v)"
      by simp
  qed
  show "\<exists>l g'. create_vocabulary_lesson g v lvl = Inr (LessonResult l, g')
           \<and> estimated_time l = str_nat (length v * 2) @ '' minutos''
           \<and> length (thematic_groups l) \<le> 3
           \<and> map theme (thematic_groups l)
               = take 3 (rev (remdups (rev (map (\<lambda>w. extract_theme (english_word w)) v))))
           \<and> distinct (map theme (thematic_groups l))
           \<and> (\<forall>tg\<in>set (thematic_groups l).
                 words tg = map english_word
                   (take 3 (filter (\<lambda>w. extract_theme (english_word w) = theme tg) v))
                 \<and> length (words tg) \<le> 3
                 \<and> word_total tg
                     = length (filter (\<lambda>w. extract_theme (english_word w) = theme tg) v))"
    by (intro exI conjI) (rule l, rule et, rule len, rule th, rule di, rule me)
qed

lemma example_themes:
  "map (\<lambda>w. extract_theme (english_word w))
     [example_entry ''1'' ''hello'' BASIC, example_entry ''2'' ''water'' BASIC,
      example_entry ''3'' ''door'' BASIC, example_entry ''4'' ''meeting'' INTERMEDIATE,
      example_entry ''5'' ''passport'' INTERMEDIATE, example_entry ''6'' ''software'' ADVANCED]
   = [''general'', ''food'', ''general'', ''work'', ''travel'', ''technology'']"
  by (simp add: example_entry_def extract_theme_def themes_def lower_simps)

theorem lesson_assembly_witness:
  "(\<exists>l g'. create_vocabulary_lesson [1, 2, 3]
       [example_entry ''1'' ''hello'' BASIC, example_entry ''2'' ''water'' BASIC,
        example_entry ''3'' ''door'' BASIC, example_entry ''4'' ''meeting'' INTERMEDIATE,
        example_entry ''5'' ''passport'' INTERMEDIATE, example_entry ''6'' ''software'' ADVANCED]
       INTERMEDIATE = Inr (LessonResult l, g')
     \<and> estimated_time l = ''12 minutos''
     \<and> map theme (thematic_groups l) = [''general'', ''food'', ''work''])
   \<and> (\<exists>msg g'. create_vocabulary_lesson [1, 2, 3] [] INTERMEDIATE = Inr (ErrorResult msg, g'))"
proof -
  let ?v = "[example_entry ''1'' ''hello'' BASIC, example_entry ''2'' ''water'' BASIC,
        example_entry ''3'' ''door'' BASIC, example_entry ''4'' ''meeting'' INTERMEDIATE,
        example_entry ''5'' ''passport'' INTERMEDIATE, example_entry ''6'' ''software'' ADVANCED]"
  have "example_entry ''1'' ''hello'' BASIC \<noteq> example_entry ''2'' ''water'' BASIC"
    by (simp add: example_entry_def)
  then have "\<exists>a\<in>set ?v. \<exists>b\<in>set ?v. a \<noteq> b" by auto
  then have h: "?v \<noteq> [] \<and> (length ?v < 3 \<or> (\<exists>a\<in>set ?v. \<exists>b\<in>set ?v. a \<noteq> b))" by blast
  from lesson_assembly [of "[1, 2, 3]" ?v INTERMEDIATE]
  have "?v \<noteq> [] \<and> (length ?v < 3 \<or> (\<exists>a\<in>set ?v. \<exists>b\<in>set ?v. a \<noteq> b)) \<longrightarrow>
        (\<exists>l g'. create_vocabulary_lesson [1, 2, 3] ?v INTERMEDIATE = Inr (LessonResult l, g')
           \<and> estimated_time l = str_nat (length ?v * 2) @ '' minutos''
           \<and> length (thematic_groups l) \<le> 3
           \<and> map theme (thematic_groups l)
               = take 3 (rev (remdups (rev (map (\<lambda>w. extract_theme (english_word w)) ?v))))
           \<and> distinct (map theme (thematic_groups l))
           \<and> (\<forall>tg\<in>set (thematic_groups l).
                 words tg = map english_word
                   (take 3 (filter (\<lambda>w. extract_theme (english_word w) = theme tg) ?v))
                 \<and> length (words tg) \<le> 3
                 \<and> word_total tg
                     = length (filter (\<lambda>w. extract_theme (english_word w) = theme tg) ?v)))"
    by (rule conjunct2)
  from this h have "\<exists>l g'. create_vocabulary_lesson [1, 2, 3] ?v INTERMEDIATE = Inr (LessonResult l, g')
           \<and> estimated_time l = str_nat (length ?v * 2) @ '' minutos''
           \<and> length (thematic_groups l) \<le> 3
           \<and> map theme (thematic_groups l)
               = take 3 (rev (remdups (rev (map (\<lambda>w. extract_theme (english_word w)) ?v))))
           \<and> distinct (map theme (thematic_groups l))
           \<and> (\<forall>tg\<in>set (thematic_groups l).
                 words tg = map english_word
                   (take 3 (filter (\<lambda>w. extract_theme (english_word w) = theme tg) ?v))
                 \<and> length (words tg) \<le> 3
                 \<and> word_total tg
                     = length (filter (\<lambda>w. extract_theme (english_word w) = theme tg) ?v))"
    by (rule mp)
  then obtain l g' where
    l: "create_vocabulary_lesson [1, 2, 3] ?v INTERMEDIATE = Inr (LessonResult l, g')"
    and et: "estimated_time l = str_nat (length ?v * 2) @ '' minutos''"
    and th: "map theme (thematic_groups l)
               = take 3 (rev (remdups (rev (map (\<lambda>w. extract_theme (english_word w)) ?v))))"
    by (elim exE conjE) (rule that, assumption+)
  have et': "estimated_time l = ''12 minutos''"
    unfolding et by (simp add: str_nat.simps)
  have th': "map theme (thematic_groups l) = [''general'', ''food'', ''work'']"
    unfolding th example_themes by simp
  from l et' th' have first: "\<exists>l g'. create_vocabulary_lesson [1, 2, 3] ?v INTERMEDIATE
         = Inr (LessonResult l, g')
     \<and> estimated_time l = ''12 minutos''
     \<and> map theme (thematic_groups l) = [''general'', ''food'', ''work'']"
    by (intro exI conjI)
  from lesson_assembly [of "[1, 2, 3]" "[]" INTERMEDIATE]
  have "(\<exists>msg g'. create_vocabulary_lesson [1, 2, 3] [] INTERMEDIATE = Inr (ErrorResult msg, g'))
      \<longleftrightarrow> ([] :: VocabularyItem list) = []"
    by (rule conjunct1)
  then have "\<exists>msg g'. create_vocabulary_lesson [1, 2, 3] [] INTERMEDIATE = Inr (ErrorResult msg, g')"
    by simp
  with first show ?thesis by (rule conjI)
qed

section \<open>Sampling\<close>

lemma draw_length: "length (fst (draw g xs k)) = min k (length xs)"
proof (induction k arbitrary: g xs)
  case 0
  then show ?case by simp
next
  case (Suc k)
  show ?case
  proof (cases xs)
    case Nil
    then show ?thesis by simp
  next
    case (Cons x ys)
    obtain r g1 where r: "next_rand g = (r, g1)" by (cases "next_rand g")
    let ?i = "r mod Suc (length ys)"
    let ?rest = "take ?i (x # ys) @ drop (Suc ?i) (x # ys)"
    obtain zs g2 where d: "draw g1 ?rest k = (zs, g2)" by (cases "draw g1 ?rest k")
    have "?i < Suc (length ys)" by simp
    then have "length ?rest = length ys" by auto
    with Suc.IH [of g1 ?rest] d have "length zs = min k (length ys)" by simp
    with Cons r d show ?thesis by simp
  qed
qed

lemma draw_mset: "mset (fst (draw g xs k)) \<subseteq># mset xs"
proof (induction k arbitrary: g xs)
  case 0
  then show ?case by simp
next
  case (Suc k)
  show ?case
  proof (cases xs)
    case Nil
    then show ?thesis by simp
  next
    case (Cons x ys)
    obtain r g1 where r: "next_rand g = (r, g1)" by (cases "next_rand g")
    let ?i = "r mod Suc (length ys)"
    let ?rest = "take ?i (x # ys) @ drop (Suc ?i) (x # ys)"
    obtain zs g2 where d: "draw g1 ?rest k = (zs, g2)" by (cases "draw g1 ?rest k")
    have i: "?i < length (x # ys)" by simp
    have split: "x # ys = take ?i (x # ys) @ (x # ys) ! ?i # drop (Suc ?i) (x # ys)"
      using i by (rule id_take_nth_drop)
    have "mset (x # ys) = add_mset ((x # ys) ! ?i) (mset ?rest)"
      by (subst split) simp
    moreover from Suc.IH [of g1 ?rest] d have "mset zs \<subseteq># mset ?rest" by simp
    ultimately have "add_mset ((x # ys) ! ?i) (mset zs) \<subseteq># mset (x # ys)" by simp
    with Cons r d show ?thesis by simp
  qed
qed

lemma draw_set: "set (fst (draw g xs k)) \<subseteq> set xs"
  using draw_mset [of g xs k] by (metis set_mset_mono set_mset_mset)

lemma sample_extend_result:
  "sample_extend g selected xs n =
     Inr (selected @ fst (draw g xs (nat (min n (int (length xs))))),
          snd (draw g xs (nat (min n (int (length xs))))))"
proof -
  have "\<not> length xs < nat (min n (int (length xs)))" by simp
  then show ?thesis
    by (simp add: sample_extend_def sample_def split: prod.splits)
qed

lemma sample_extend_subset:
  assumes "set selected \<subseteq> S" and "set xs \<subseteq> S"
  shows "\<exists>sel' g'. sample_extend g selected xs n = Inr (sel', g') \<and> set sel' \<subseteq> S"
proof -
  have "set (fst (draw g xs (nat (min n (int (length xs)))))) \<subseteq> S"
    using draw_set assms(2) by (rule subset_trans)
  with assms(1) show ?thesis by (simp add: sample_extend_result)
qed

section \<open>The selection passes stay inside the pool\<close>

lemma complexity_pass_subset:
  assumes "\<forall>p\<in>set groups. set (snd p) \<subseteq> S" and "set selected \<subseteq> S"
  shows "\<exists>sel' g'. complexity_pass g groups limit comps selected = Inr (sel', g') \<and> set sel' \<subseteq> S"
  using assms(2)
proof (induction comps arbitrary: g selected)
  case Nil
  then show ?case by simp
next
  case (Cons c comps)
  show ?case
  proof (cases "map_of groups c")
    case None
    with Cons.IH [OF Cons.prems, of g] show ?thesis by simp
  next
    case (Some ws)
    then have "(c, ws) \<in> set groups" by (rule map_of_SomeD)
    with assms(1) have "set ws \<subseteq> S" by force
    from sample_extend_subset [OF Cons.prems this, of g "share30 limit"] obtain s1 g1 where
      s1: "sample_extend g selected ws (share30 limit) = Inr (s1, g1)" and "set s1 \<subseteq> S"
      by blast
    from Cons.IH [OF this(2), of g1] Some s1 show ?thesis by simp
  qed
qed

lemma theme_pass_subset:
  assumes "\<forall>p\<in>set groups. set (snd p) \<subseteq> S" and "set selected \<subseteq> S"
  shows "\<exists>sel' g'. theme_pass g groups limit n selected = Inr (sel', g') \<and> set sel' \<subseteq> S"
  using assms
proof (induction groups arbitrary: g selected)
  case Nil
  then show ?case by simp
next
  case (Cons p groups)
  obtain t ws where p: "p = (t, ws)" by (cases p)
  from Cons.prems(1) have rest: "\<forall>p\<in>set groups. set (snd p) \<subseteq> S" by simp
  show ?case
  proof (cases "ws = []")
    case True
    with Cons.IH [OF rest Cons.prems(2), of g] p show ?thesis by simp
  next
    case False
    from Cons.prems(1) p have "set ws \<subseteq> S" by simp
    from sample_extend_subset [OF Cons.prems(2) this, of g "theme_share limit n"] obtain s1 g1 where
      s1: "sample_extend g selected ws (theme_share limit n) = Inr (s1, g1)" and "set s1 \<subseteq> S"
      by blast
    from Cons.IH [OF rest this(2), of g1] False p s1 show ?thesis by simp
  qed
qed

lemma filtered_pass_subset:
  assumes "set ws \<subseteq> S" and "set selected \<subseteq> S"
  shows "\<exists>sel' g'. filtered_pass g ws limit selected = Inr (sel', g') \<and> set sel' \<subseteq> S"
proof (cases "ws = []")
  case True
  with assms(2) show ?thesis by (simp add: filtered_pass_def)
next
  case False
  with sample_extend_subset [OF assms(2) assms(1), of g "share20 limit"] show ?thesis
    by (simp add: filtered_pass_def)
qed

lemma group_by_subset: "\<forall>p\<in>set (group_by f xs). set (snd p) \<subseteq> set xs"
proof
  fix p assume "p \<in> set (group_by f xs)"
  then have "(fst p, snd p) \<in> set (group_by f xs)" by simp
  from group_by_member [OF this] have "snd p = filter (\<lambda>x. f x = fst p) xs" by blast
  then show "set (snd p) \<subseteq> set xs" by auto
qed

lemma selection_passes_subset:
  "\<exists>sel g'. selection_passes g v limit = Inr (sel, g') \<and> set sel \<subseteq> set v"
proof -
  let ?cg = "group_by (\<lambda>word. level_value (complexity word)) v"
  let ?tg = "group_by (\<lambda>word. extract_theme (english_word word)) v"
  have e: "set ([] :: VocabularyItem list) \<subseteq> set v" by simp
  have "\<forall>p\<in>set ?cg. set (snd p) \<subseteq> set v" by (rule group_by_subset)
  from complexity_pass_subset [OF this e, of g limit "[''basic'', ''intermediate'', ''advanced'']"]
  obtain s1 g1 where
    1: "complexity_pass g ?cg limit [''basic'', ''intermediate'', ''advanced''] [] = Inr (s1, g1)"
    and s1: "set s1 \<subseteq> set v" by blast
  have "\<forall>p\<in>set (take 5 ?tg). set (snd p) \<subseteq> set v"
    using group_by_subset [of "\<lambda>word. extract_theme (english_word word)" v]
    by (meson in_set_takeD)
  from theme_pass_subset [OF this s1, of g1 limit "length ?tg"] obtain s2 g2 where
    2: "theme_pass g1 (take 5 ?tg) limit (length ?tg) s1 = Inr (s2, g2)"
    and s2: "set s2 \<subseteq> set v" by blast
  have "set (filter (\<lambda>w. is_practical_word (english_word w)) v) \<subseteq> set v" by simp
  from filtered_pass_subset [OF this s2, of g2 limit] obtain s3 g3 where
    3: "filtered_pass g2 (filter (\<lambda>w. is_practical_word (english_word w)) v) limit s2 = Inr (s3, g3)"
    and s3: "set s3 \<subseteq> set v" by blast
  have "set (filter (\<lambda>w. is_interesting_word (english_word w)) v) \<subseteq> set v" by simp
  from filtered_pass_subset [OF this s3, of g3 limit] obtain s4 g4 where
    4: "filtered_pass g3 (filter (\<lambda>w. is_interesting_word (english_word w)) v) limit s3 = Inr (s4, g4)"
    and s4: "set s4 \<subseteq> set v" by blast
  have "selection_passes g v limit = Inr (s4, g4)"
    unfolding selection_passes_def Let_def by (simp only: 1 2 3 4 sum.case prod.case)
  with s4 show ?thesis by blast
qed

section \<open>De-duplication and backfill\<close>

lemma dedup_invariant:
  assumes "dedup xs seen acc = (acc', seen')"
    and "seen = item_id ` set acc" and "distinct (map item_id acc)"
  shows "seen' = item_id ` set acc' \<and> distinct (map item_id acc')
    \<and> set acc' \<subseteq> set acc \<union> set xs"
  using assms
proof (induction xs arbitrary: seen acc)
  case Nil
  then show ?case by auto
next
  case (Cons w xs)
  show ?case
  proof (cases "item_id w \<in> seen")
    case True
    with Cons.prems(1) have "dedup xs seen acc = (acc', seen')" by simp
    from Cons.IH [OF this Cons.prems(2) Cons.prems(3)] show ?thesis by auto
  next
    case False
    with Cons.prems(1) have d: "dedup xs (insert (item_id w) seen) (acc @ [w]) = (acc', seen')"
      by simp
    have s: "insert (item_id w) seen = item_id ` set (acc @ [w])"
      using Cons.prems(2) by auto
    have "distinct (map item_id (acc @ [w]))"
      using Cons.prems(2) Cons.prems(3) False by auto
    from Cons.IH [OF d s this] show ?thesis by auto
  qed
qed

text \<open>With pairwise distinct ids, the entries whose id was not seen are the pool minus the selection.\<close>

lemma remaining_length:
  assumes "distinct (map f vs)" and "set us \<subseteq> set vs" and "distinct (map f us)"
  shows "length (filter (\<lambda>w. f w \<notin> f ` set us) vs) = length vs - length us"
proof -
  have inj: "inj_on f (set vs)" and dv: "distinct vs"
    using assms(1) by (simp_all add: distinct_map)
  have du: "distinct us" using assms(3) by (simp add: distinct_map)
  have "filter (\<lambda>w. f w \<notin> f ` set us) vs = filter (\<lambda>w. w \<notin> set us) vs"
  proof (rule filter_cong [OF refl])
    fix w assume w: "w \<in> set vs"
    show "(f w \<notin> f ` set us) = (w \<notin> set us)"
    proof
      assume "f w \<notin> f ` set us"
      then show "w \<notin> set us" by blast
    next
      assume n: "w \<notin> set us"
      show "f w \<notin> f ` set us"
      proof
        assume "f w \<in> f ` set us"
        then obtain u where u: "u \<in> set us" "f w = f u" by blast
        with assms(2) have "u \<in> set vs" by blast
        with inj w u(2) have "w = u" by (simp add: inj_on_def)
        with u(1) n show False by simp
      qed
    qed
  qed
  then have "length (filter (\<lambda>w. f w \<notin> f ` set us) vs) = length (filter (\<lambda>w. w \<notin> set us) vs)"
    by simp
  also have "\<dots> = card (set (filter (\<lambda>w. w \<notin> set us) vs))"
    by (rule distinct_card [symmetric]) (use dv in simp)
  also have "set (filter (\<lambda>w. w \<notin> set us) vs) = set vs - set us" by auto
  also have "card (set vs - set us) = card (set vs) - card (set us)"
    using assms(2) by (simp add: card_Diff_subset)
  also have "\<dots> = length vs - length us"
    using dv du by (simp add: distinct_card)
  finally show ?thesis .
qed

lemma distinct_mset_subset:
  assumes "mset ys \<subseteq># mset xs" and "distinct xs"
  shows "distinct ys"
proof -
  have "count (mset ys) a = (if a \<in> set ys then 1 else 0)" for a
  proof (cases "a \<in> set ys")
    case True
    then have p: "0 < count (mset ys) a" by simp
    have q: "count (mset ys) a \<le> count (mset xs) a"
      using assms(1) by (rule mset_subset_eq_count)
    have r: "count (mset xs) a \<le> 1"
      using assms(2) by (simp add: distinct_count_atmost_1)
    from p q r have "count (mset ys) a = 1" by linarith
    with True show ?thesis by simp
  next
    case False
    then show ?thesis by (simp add: count_eq_zero_iff)
  qed
  then show ?thesis unfolding distinct_count_atmost_1 by blast
qed

lemma distinct_map_mset_subset:
  assumes "mset ys \<subseteq># mset xs" and "distinct (map f xs)"
  shows "distinct (map f ys)"
proof -
  from assms(1) have "image_mset f (mset ys) \<subseteq># image_mset f (mset xs)"
    by (rule image_mset_subseteq_mono)
  then have "mset (map f ys) \<subseteq># mset (map f xs)" by simp
  then show ?thesis using assms(2) by (rule distinct_mset_subset)
qed

lemma disjoint_images:
  assumes "\<And>x. x \<in> B \<Longrightarrow> f x \<notin> f ` A"
  shows "f ` A \<inter> f ` B = {}"
proof (rule ccontr)
  assume "f ` A \<inter> f ` B \<noteq> {}"
  then obtain y where "y \<in> f ` A" and "y \<in> f ` B" by auto
  then obtain a b where a: "a \<in> A" "y = f a" and b: "b \<in> B" "y = f b" by auto
  from a(2) b(2) have "f b = f a" by simp
  from this a(1) have "f b \<in> f ` A" by (rule image_eqI)
  with assms [OF b(1)] show False by simp
qed

lemma backfill_result:
  assumes dv: "distinct (map item_id v)"
    and sub: "set unique \<subseteq> set v"
    and du: "distinct (map item_id unique)"
    and seen: "seen = item_id ` set unique"
    and lim: "limit < int (length v)"
  shows "\<exists>final g'. backfill g v limit unique seen = Inr (final, g')
    \<and> limit \<le> int (length final) \<and> distinct (map item_id final) \<and> set final \<subseteq> set v"
proof (cases "int (length unique) < limit")
  case False
  with sub du show ?thesis by (simp add: backfill_def)
next
  case True
  let ?remaining = "filter (\<lambda>w. item_id w \<notin> seen) v"
  let ?needed = "limit - int (length unique)"
  let ?k = "nat (min ?needed (int (length ?remaining)))"
  have len: "length ?remaining = length v - length unique"
    unfolding seen using dv sub du by (rule remaining_length)
  have "length unique < length v" using True lim by simp
  with len have ne: "?remaining \<noteq> []" by auto
  have k: "?k = nat ?needed" using len True lim by simp
  let ?drawn = "fst (draw g ?remaining ?k)"
  have dl: "length ?drawn = nat ?needed"
    using len True lim by (simp add: draw_length k)
  have dm: "mset ?drawn \<subseteq># mset ?remaining" by (rule draw_mset)
  have "distinct (map item_id ?remaining)" using dv by (simp add: distinct_map_filter)
  with dm have dd: "distinct (map item_id ?drawn)" by (rule distinct_map_mset_subset)
  have ds: "set ?drawn \<subseteq> set ?remaining" by (rule draw_set)
  have "item_id x \<notin> item_id ` set unique" if "x \<in> set ?drawn" for x
  proof -
    from that ds have "x \<in> set ?remaining" by (rule subsetD [rotated])
    then have "item_id x \<notin> seen" by simp
    with seen show ?thesis by simp
  qed
  then have disj: "item_id ` set unique \<inter> item_id ` set ?drawn = {}"
    by (rule disjoint_images)
  have b: "backfill g v limit unique seen
      = Inr (unique @ ?drawn, snd (draw g ?remaining ?k))"
    using True ne by (simp add: backfill_def Let_def sample_extend_result)
  have 1: "limit \<le> int (length (unique @ ?drawn))" using dl True by simp
  have 2: "distinct (map item_id (unique @ ?drawn))" using du dd disj by simp
  have 3: "set (unique @ ?drawn) \<subseteq> set v" using sub ds by auto
  show ?thesis by (intro exI conjI) (rule b, rule 1, rule 2, rule 3)
qed

section \<open>The selection contract\<close>

lemma intelligent_selection_small:
  "int (length v) \<le> limit \<Longrightarrow> intelligent_selection g v limit = Inr (v, g)"
  by (simp add: intelligent_selection_def)

lemma intelligent_selection_empty: "intelligent_selection g [] limit = Inr ([], g)"
  by (simp add: intelligent_selection_def selection_passes_def group_by_Nil filtered_pass_def
      backfill_def py_take_def)

lemma intelligent_selection_large:
  assumes dv: "distinct (map item_id v)" and pos: "0 < limit" and big: "limit < int (length v)"
  shows "\<exists>res g'. intelligent_selection g v limit = Inr (res, g')
    \<and> length res = nat limit \<and> distinct (map item_id res) \<and> set res \<subseteq> set v"
proof -
  from selection_passes_subset [of g v limit] obtain sel g1 where
    sp: "selection_passes g v limit = Inr (sel, g1)" and ss: "set sel \<subseteq> set v" by blast
  obtain unique seen where dd: "dedup sel {} [] = (unique, seen)" by (cases "dedup sel {} []")
  have "{} = item_id ` set ([] :: VocabularyItem list)" by simp
  moreover have "distinct (map item_id ([] :: VocabularyItem list))" by simp
  ultimately have inv: "seen = item_id ` set unique \<and> distinct (map item_id unique)
      \<and> set unique \<subseteq> set [] \<union> set sel"
    by (rule dedup_invariant [OF dd])
  then have seen: "seen = item_id ` set unique" and du: "distinct (map item_id unique)"
    and us: "set unique \<subseteq> set v" using ss by auto
  from backfill_result [OF dv us du seen big, of g1] obtain final g2 where
    bf: "backfill g1 v limit unique seen = Inr (final, g2)"
    and fl: "limit \<le> int (length final)"
    and fd: "distinct (map item_id final)"
    and fs: "set final \<subseteq> set v" by blast
  have take: "py_take limit final = take (nat limit) final"
    using pos by (simp add: py_take_def)
  have r: "intelligent_selection g v limit = Inr (take (nat limit) final, g2)"
    using big by (simp add: intelligent_selection_def sp dd bf take)
  have 1: "length (take (nat limit) final) = nat limit" using fl by simp
  have "distinct (take (nat limit) (map item_id final))" using fd by (rule distinct_take)
  then have 2: "distinct (map item_id (take (nat limit) final))" by (simp add: take_map)
  have 3: "set (take (nat limit) final) \<subseteq> set v"
    using set_take_subset fs by (rule subset_trans)
  show ?thesis by (intro exI conjI) (rule r, rule 1, rule 2, rule 3)
qed

text \<open>
  Claim C1. For every pool (empty or not) whose entry ids are pairwise distinct, every
  positive target count and every random source, \<open>intelligent_selection\<close> returns a list
  of length min(targetCount, len(pool)) whose ids are pairwise distinct and whose entries
  all come from the pool; when the pool is not larger than the target the list is the
  pool itself, unchanged; and an empty pool yields the empty list, whatever the target.
\<close>

theorem intelligent_selection_contract:
  assumes "distinct (map item_id pool)" and "0 < limit"
  shows "(\<exists>res g'. intelligent_selection g pool limit = Inr (res, g')
      \<and> length res = min (nat limit) (length pool)
      \<and> distinct (map item_id res)
      \<and> set res \<subseteq> set pool
      \<and> (int (length pool) \<le> limit \<longrightarrow> res = pool))
    \<and> intelligent_selection g [] limit' = Inr ([], g)"
proof
  show "\<exists>res g'. intelligent_selection g pool limit = Inr (res, g')
      \<and> length res = min (nat limit) (length pool)
      \<and> distinct (map item_id res)
      \<and> set res \<subseteq> set pool
      \<and> (int (length pool) \<le> limit \<longrightarrow> res = pool)"
  proof (cases "int (length pool) \<le> limit")
    case True
    then have r: "intelligent_selection g pool limit = Inr (pool, g)"
      by (rule intelligent_selection_small)
    have 1: "length pool = min (nat limit) (length pool)" using True by simp
    have 2: "int (length pool) \<le> limit \<longrightarrow> pool = pool" by simp
    show ?thesis
      by (intro exI conjI) (rule r, rule 1, rule assms(1), rule subset_refl, rule 2)
  next
    case False
    then have big: "limit < int (length pool)" by simp
    from intelligent_selection_large [OF assms(1) assms(2) big, of g] obtain res g' where
      r: "intelligent_selection g pool limit = Inr (res, g')"
      and l: "length res = nat limit"
      and d: "distinct (map item_id res)"
      and s: "set res \<subseteq> set pool" by blast
    have 1: "length res = min (nat limit) (length pool)" using l big by simp
    have 2: "int (length pool) \<le> limit \<longrightarrow> res = pool" using False by simp
    show ?thesis by (intro exI conjI) (rule r, rule 1, rule d, rule s, rule 2)
  qed
next
  show "intelligent_selection g [] limit' = Inr ([], g)"
    by (rule intelligent_selection_empty)
qed

theorem intelligent_selection_contract_witness:
  "distinct (map item_id
      [example_entry ''1'' ''hello'' BASIC, example_entry ''2'' ''water'' BASIC,
       example_entry ''3'' ''door'' BASIC, example_entry ''4'' ''meeting'' INTERMEDIATE,
       example_entry ''5'' ''passport'' INTERMEDIATE, example_entry ''6'' ''software'' ADVANCED])
   \<and> (\<exists>res g'. intelligent_selection [3, 1, 4, 1, 5, 9, 2, 6]
         [example_entry ''1'' ''hello'' BASIC, example_entry ''2'' ''water'' BASIC,
          example_entry ''3'' ''door'' BASIC, example_entry ''4'' ''meeting'' INTERMEDIATE,
          example_entry ''5'' ''passport'' INTERMEDIATE, example_entry ''6'' ''software'' ADVANCED]
         4 = Inr (res, g')
       \<and> length res = 4 \<and> distinct (map item_id res)
       \<and> set res \<subseteq> set
         [example_entry ''1'' ''hello'' BASIC, example_entry ''2'' ''water'' BASIC,
          example_entry ''3'' ''door'' BASIC, example_entry ''4'' ''meeting'' INTERMEDIATE,
          example_entry ''5'' ''passport'' INTERMEDIATE, example_entry ''6'' ''software'' ADVANCED])"
proof -
  let ?v = "[example_entry ''1'' ''hello'' BASIC, example_entry ''2'' ''water'' BASIC,
          example_entry ''3'' ''door'' BASIC, example_entry ''4'' ''meeting'' INTERMEDIATE,
          example_entry ''5'' ''passport'' INTERMEDIATE, example_entry ''6'' ''software'' ADVANCED]"
  have d: "distinct (map item_id ?v)" by (simp add: example_entry_def)
  have p: "(0::int) < 4" by simp
  from intelligent_selection_contract [OF d p, of "[3, 1, 4, 1, 5, 9, 2, 6]"]
  have "\<exists>res g'. intelligent_selection [3, 1, 4, 1, 5, 9, 2, 6] ?v 4 = Inr (res, g')
      \<and> length res = min (nat 4) (length ?v)
      \<and> distinct (map item_id res)
      \<and> set res \<subseteq> set ?v
      \<and> (int (length ?v) \<le> 4 \<longrightarrow> res = ?v)"
    by (rule conjunct1)
  then obtain res g' where
    r: "intelligent_selection [3, 1, 4, 1, 5, 9, 2, 6] ?v 4 = Inr (res, g')"
    and l: "length res = min (nat 4) (length ?v)"
    and dr: "distinct (map item_id res)"
    and s: "set res \<subseteq> set ?v"
    by (elim exE conjE) (rule that, assumption+)
  from l have l4: "length res = 4" by simp
  have "\<exists>res g'. intelligent_selection [3, 1, 4, 1, 5, 9, 2, 6] ?v 4 = Inr (res, g')
       \<and> length res = 4 \<and> distinct (map item_id res) \<and> set res \<subseteq> set ?v"
    by (intro exI conjI) (rule r, rule l4, rule dr, rule s)
  with d show ?thesis by (rule conjI)
qed

section \<open>Backfill by level proximity\<close>

lemma proximity_ordinal: "proximity lvl x = \<bar>level_ordinal (complexity x) - level_ordinal lvl\<bar>"
  by (cases lvl; cases "complexity x") (simp_all add: proximity_def level_num_def level_order_def)

lemma level_filter_backfill:
  assumes "int (length (filter (\<lambda>v. complexity v = lvl) all_vocab)) < limit"
  shows "level_filter all_vocab (Some lvl) limit
    = filter (\<lambda>v. complexity v = lvl) all_vocab
      @ take (nat (limit - int (length (filter (\<lambda>v. complexity v = lvl) all_vocab))))
          (sort_key (proximity lvl) (filter (\<lambda>v. complexity v \<noteq> lvl) all_vocab))"
  using assms by (simp add: level_filter_def Let_def py_take_def)

lemma backfilled_selection:
  assumes "all_vocab \<noteq> []"
    and "int (length (filter (\<lambda>v. complexity v = lvl) all_vocab)) < limit"
  shows "get_category_vocabulary json_loads response now g all_vocab cat (Some lvl) limit
    = Inr (filter (\<lambda>v. complexity v = lvl) all_vocab
      @ take (nat (limit - int (length (filter (\<lambda>v. complexity v = lvl) all_vocab))))
          (sort_key (proximity lvl) (filter (\<lambda>v. complexity v \<noteq> lvl) all_vocab)), g)"
proof -
  let ?m = "filter (\<lambda>v. complexity v = lvl) all_vocab"
  let ?o = "sort_key (proximity lvl) (filter (\<lambda>v. complexity v \<noteq> lvl) all_vocab)"
  let ?r = "?m @ take (nat (limit - int (length ?m))) ?o"
  have lf: "level_filter all_vocab (Some lvl) limit = ?r"
    using assms(2) by (rule level_filter_backfill)
  have "length (take (nat (limit - int (length ?m))) ?o) \<le> nat (limit - int (length ?m))"
    by simp
  then have "int (length ?r) \<le> limit" using assms(2) by simp
  then have "intelligent_selection g ?r limit = Inr (?r, g)"
    by (rule intelligent_selection_small)
  with assms(1) lf show ?thesis by (simp add: get_category_vocabulary_def)
qed

text \<open>The first entry of a list sorted by a key has a least key.\<close>

lemma sort_key_hd:
  assumes "xs \<noteq> []"
  shows "\<forall>y\<in>set xs. f (hd (sort_key f xs)) \<le> f y"
proof -
  have ne: "sort_key f xs \<noteq> []" using assms by (metis length_sort length_0_conv)
  then obtain x rest where s: "sort_key f xs = x # rest" by (cases "sort_key f xs") auto
  have "sorted (map f (sort_key f xs))" by (rule sorted_sort_key)
  with s have r: "\<forall>y\<in>set rest. f x \<le> f y" by simp
  have "set xs = set (sort_key f xs)" by simp
  also have "\<dots> = insert x (set rest)" by (simp only: s list.set)
  finally have sx: "set xs = insert x (set rest)" .
  have "hd (sort_key f xs) = x" by (simp only: s list.sel)
  with r sx show ?thesis by simp
qed

lemma sort_key_take_one:
  assumes "filter (\<lambda>y. f y = k) xs \<noteq> []" and "\<forall>y\<in>set xs. k \<le> f y"
  shows "take 1 (sort_key f xs) = [hd (filter (\<lambda>y. f y = k) xs)]"
proof -
  from assms(1) obtain z where z: "z \<in> set xs" "f z = k"
    by (auto simp: filter_empty_conv)
  then have ne: "xs \<noteq> []" by auto
  then have "sort_key f xs \<noteq> []" by (metis length_sort length_0_conv)
  then obtain x rest where s: "sort_key f xs = x # rest" by (cases "sort_key f xs") auto
  from sort_key_hd [OF ne, of f] z s have "f x \<le> k" by auto
  moreover have "x \<in> set xs" using s by (metis list.set_intros(1) set_sort)
  with assms(2) have "k \<le> f x" by blast
  ultimately have fx: "f x = k" by simp
  have "filter (\<lambda>y. f y = k) xs = filter (\<lambda>y. f y = k) (sort_key f xs)"
    by (rule sort_key_stable [symmetric])
  also have "\<dots> = x # filter (\<lambda>y. f y = k) rest" using s fx by simp
  finally have "hd (filter (\<lambda>y. f y = k) xs) = x" by simp
  with s show ?thesis by simp
qed

lemma basic_backfill_one:
  assumes "filter (\<lambda>v. complexity v = INTERMEDIATE) all_vocab \<noteq> []"
  shows "take 1 (sort_key (proximity BASIC) (filter (\<lambda>v. complexity v \<noteq> BASIC) all_vocab))
    = [hd (filter (\<lambda>v. complexity v = INTERMEDIATE) all_vocab)]"
proof -
  let ?others = "filter (\<lambda>v. complexity v \<noteq> BASIC) all_vocab"
  have key: "(proximity BASIC y = 1) = (complexity y = INTERMEDIATE)" for y
    by (cases "complexity y") (simp_all add: proximity_ordinal)
  have eq: "filter (\<lambda>y. proximity BASIC y = 1) ?others
      = filter (\<lambda>v. complexity v = INTERMEDIATE) all_vocab"
    by (simp add: key) (rule filter_cong, auto)
  have lo: "\<forall>y\<in>set ?others. 1 \<le> proximity BASIC y"
  proof
    fix y assume "y \<in> set ?others"
    then have "complexity y \<noteq> BASIC" by simp
    then show "1 \<le> proximity BASIC y"
      by (cases "complexity y") (simp_all add: proximity_ordinal)
  qed
  from assms eq have "filter (\<lambda>y. proximity BASIC y = 1) ?others \<noteq> []" by simp
  from sort_key_take_one [OF this lo] eq show ?thesis by simp
qed

text \<open>
  Claim C4. In \<open>get_category_vocabulary\<close> with a level given and fewer matching-level
  entries than the target, the result is the matching-level entries followed by a backfill
  from the other-level entries: a prefix of those entries stably sorted by their distance
  to the user's level on the scale basic 0, intermediate 1, advanced 2 (closest first),
  as long as the target allows or until the other entries are exhausted. For the level
  basic, 4 basic entries and the target 5 (as in a pool of 4 basic, 3 intermediate and 3
  advanced entries) the result is the 4 basic entries plus one backfilled entry, the first
  intermediate entry of the pool.
\<close>

theorem level_proximity_backfill:
  assumes "all_vocab \<noteq> []"
    and "int (length (filter (\<lambda>v. complexity v = lvl) all_vocab)) < limit"
  shows "\<exists>extra.
      get_category_vocabulary json_loads response now g all_vocab cat (Some lvl) limit
        = Inr (filter (\<lambda>v. complexity v = lvl) all_vocab @ extra, g)
    \<and> extra = take (nat (limit - int (length (filter (\<lambda>v. complexity v = lvl) all_vocab))))
                (sort_key (proximity lvl) (filter (\<lambda>v. complexity v \<noteq> lvl) all_vocab))
    \<and> length extra = min (nat (limit - int (length (filter (\<lambda>v. complexity v = lvl) all_vocab))))
                (length (filter (\<lambda>v. complexity v \<noteq> lvl) all_vocab))
    \<and> (\<forall>x. proximity lvl x = \<bar>level_ordinal (complexity x) - level_ordinal lvl\<bar>)
    \<and> sorted (map (proximity lvl)
         (sort_key (proximity lvl) (filter (\<lambda>v. complexity v \<noteq> lvl) all_vocab)))
    \<and> (\<forall>d. filter (\<lambda>x. proximity lvl x = d)
              (sort_key (proximity lvl) (filter (\<lambda>v. complexity v \<noteq> lvl) all_vocab))
            = filter (\<lambda>x. proximity lvl x = d) (filter (\<lambda>v. complexity v \<noteq> lvl) all_vocab))
    \<and> (lvl = BASIC \<and> length (filter (\<lambda>v. complexity v = lvl) all_vocab) = 4 \<and> limit = 5
         \<and> filter (\<lambda>v. complexity v = INTERMEDIATE) all_vocab \<noteq> []
         \<longrightarrow> extra = [hd (filter (\<lambda>v. complexity v = INTERMEDIATE) all_vocab)])"
proof -
  let ?m = "filter (\<lambda>v. complexity v = lvl) all_vocab"
  let ?others = "filter (\<lambda>v. complexity v \<noteq> lvl) all_vocab"
  let ?extra = "take (nat (limit - int (length ?m))) (sort_key (proximity lvl) ?others)"
  have 1: "get_category_vocabulary json_loads response now g all_vocab cat (Some lvl) limit
        = Inr (?m @ ?extra, g)"
    using assms by (rule backfilled_selection)
  have 2: "?extra = ?extra" by (rule refl)
  have 3: "length ?extra = min (nat (limit - int (length ?m))) (length ?others)"
    by simp
  have 4: "\<forall>x. proximity lvl x = \<bar>level_ordinal (complexity x) - level_ordinal lvl\<bar>"
    by (simp add: proximity_ordinal)
  have 5: "sorted (map (proximity lvl) (sort_key (proximity lvl) ?others))"
    by (rule sorted_sort_key)
  have 6: "\<forall>d. filter (\<lambda>x. proximity lvl x = d) (sort_key (proximity lvl) ?others)
            = filter (\<lambda>x. proximity lvl x = d) ?others"
    by (simp only: sort_key_stable) simp
  have 7: "lvl = BASIC \<and> length ?m = 4 \<and> limit = 5
         \<and> filter (\<lambda>v. complexity v = INTERMEDIATE) all_vocab \<noteq> []
         \<longrightarrow> ?extra = [hd (filter (\<lambda>v. complexity v = INTERMEDIATE) all_vocab)]"
  proof
    assume a: "lvl = BASIC \<and> length ?m = 4 \<and> limit = 5
         \<and> filter (\<lambda>v. complexity v = INTERMEDIATE) all_vocab \<noteq> []"
    then have l: "lvl = BASIC" and n: "length ?m = 4" and lim: "limit = 5"
      and i: "filter (\<lambda>v. complexity v = INTERMEDIATE) all_vocab \<noteq> []"
      by blast+
    have k: "nat (limit - int (length ?m)) = 1" by (simp add: n lim)
    have "take 1 (sort_key (proximity lvl) ?others)
        = [hd (filter (\<lambda>v. complexity v = INTERMEDIATE) all_vocab)]"
      unfolding l using i by (rule basic_backfill_one)
    then show "?extra = [hd (filter (\<lambda>v. complexity v = INTERMEDIATE) all_vocab)]"
      by (simp only: k)
  qed
  show ?thesis
    by (intro exI conjI) (rule 1, rule 2, rule 3, rule 4, rule 5, rule 6, rule 7)
qed

lemma scenario_pool:
  "filter (\<lambda>v. complexity v = BASIC)
     [example_entry ''a1'' ''software'' ADVANCED, example_entry ''b1'' ''hello'' BASIC,
      example_entry ''i1'' ''meeting'' INTERMEDIATE, example_entry ''b2'' ''water'' BASIC,
      example_entry ''a2'' ''destination'' ADVANCED, example_entry ''i2'' ''passport'' INTERMEDIATE,
      example_entry ''b3'' ''door'' BASIC, example_entry ''b4'' ''bed'' BASIC,
      example_entry ''i3'' ''project'' INTERMEDIATE, example_entry ''a3'' ''medicine'' ADVANCED]
   = [example_entry ''b1'' ''hello'' BASIC, example_entry ''b2'' ''water'' BASIC,
      example_entry ''b3'' ''door'' BASIC, example_entry ''b4'' ''bed'' BASIC]"
  "hd (filter (\<lambda>v. complexity v = INTERMEDIATE)
     [example_entry ''a1'' ''software'' ADVANCED, example_entry ''b1'' ''hello'' BASIC,
      example_entry ''i1'' ''meeting'' INTERMEDIATE, example_entry ''b2'' ''water'' BASIC,
      example_entry ''a2'' ''destination'' ADVANCED, example_entry ''i2'' ''passport'' INTERMEDIATE,
      example_entry ''b3'' ''door'' BASIC, example_entry ''b4'' ''bed'' BASIC,
      example_entry ''i3'' ''project'' INTERMEDIATE, example_entry ''a3'' ''medicine'' ADVANCED])
   = example_entry ''i1'' ''meeting'' INTERMEDIATE"
  "filter (\<lambda>v. complexity v = INTERMEDIATE)
     [example_entry ''a1'' ''software'' ADVANCED, example_entry ''b1'' ''hello'' BASIC,
      example_entry ''i1'' ''meeting'' INTERMEDIATE, example_entry ''b2'' ''water'' BASIC,
      example_entry ''a2'' ''destination'' ADVANCED, example_entry ''i2'' ''passport'' INTERMEDIATE,
      example_entry ''b3'' ''door'' BASIC, example_entry ''b4'' ''bed'' BASIC,
      example_entry ''i3'' ''project'' INTERMEDIATE, example_entry ''a3'' ''medicine'' ADVANCED]
   \<noteq> []"
  by (simp_all add: example_entry_def)

theorem level_proximity_backfill_witness:
  "get_category_vocabulary (\<lambda>t. Inl JSONDecodeError) None (\<lambda>i. ''0'') [7, 7]
     [example_entry ''a1'' ''software'' ADVANCED, example_entry ''b1'' ''hello'' BASIC,
      example_entry ''i1'' ''meeting'' INTERMEDIATE, example_entry ''b2'' ''water'' BASIC,
      example_entry ''a2'' ''destination'' ADVANCED, example_entry ''i2'' ''passport'' INTERMEDIATE,
      example_entry ''b3'' ''door'' BASIC, example_entry ''b4'' ''bed'' BASIC,
      example_entry ''i3'' ''project'' INTERMEDIATE, example_entry ''a3'' ''medicine'' ADVANCED]
     ''daily_life'' (Some BASIC) 5
   = Inr ([example_entry ''b1'' ''hello'' BASIC, example_entry ''b2'' ''water'' BASIC,
           example_entry ''b3'' ''door'' BASIC, example_entry ''b4'' ''bed'' BASIC,
           example_entry ''i1'' ''meeting'' INTERMEDIATE], [7, 7])"
proof -
  let ?pool = "[example_entry ''a1'' ''software'' ADVANCED, example_entry ''b1'' ''hello'' BASIC,
      example_entry ''i1'' ''meeting'' INTERMEDIATE, example_entry ''b2'' ''water'' BASIC,
      example_entry ''a2'' ''destination'' ADVANCED, example_entry ''i2'' ''passport'' INTERMEDIATE,
      example_entry ''b3'' ''door'' BASIC, example_entry ''b4'' ''bed'' BASIC,
      example_entry ''i3'' ''project'' INTERMEDIATE, example_entry ''a3'' ''medicine'' ADVANCED]"
  have ne: "?pool \<noteq> []" by simp
  have len: "length (filter (\<lambda>v. complexity v = BASIC) ?pool) = 4"
    by (simp only: scenario_pool(1)) simp
  then have lt: "int (length (filter (\<lambda>v. complexity v = BASIC) ?pool)) < 5" by simp
  from level_proximity_backfill [OF ne lt, of "\<lambda>t. Inl JSONDecodeError" None "\<lambda>i. ''0''" "[7, 7]"
      "''daily_life''"]
  obtain extra where
    r: "get_category_vocabulary (\<lambda>t. Inl JSONDecodeError) None (\<lambda>i. ''0'') [7, 7] ?pool
          ''daily_life'' (Some BASIC) 5
        = Inr (filter (\<lambda>v. complexity v = BASIC) ?pool @ extra, [7, 7])"
    and s: "BASIC = BASIC \<and> length (filter (\<lambda>v. complexity v = BASIC) ?pool) = 4 \<and> (5::int) = 5
         \<and> filter (\<lambda>v. complexity v = INTERMEDIATE) ?pool \<noteq> []
         \<longrightarrow> extra = [hd (filter (\<lambda>v. complexity v = INTERMEDIATE) ?pool)]"
    by (elim exE conjE) (rule that, assumption+)
  from s len scenario_pool(3)
  have "extra = [hd (filter (\<lambda>v. complexity v = INTERMEDIATE) ?pool)]" by blast
  then have e: "extra = [example_entry ''i1'' ''meeting'' INTERMEDIATE]"
    by (simp only: scenario_pool(2))
  show ?thesis
    unfolding r e scenario_pool(1) by simp
qed

end
